theory Spec2Isabelle
  imports Main "HOL-Library.Sublist"
begin

section \<open>Python strings\<close>

text \<open>
  The program is a Python script; its \<open>str\<close> values are sequences of Unicode code
  points, and \<open>strip\<close>, \<open>upper\<close> and \<open>len\<close> work on code points. A string is
  therefore a list of code points (natural numbers); \<open>ascii\<close> embeds an ASCII literal.
  The script's messages are Chinese: each literal of the source is a constant below,
  given by its code points, with an English gloss in the list that follows them.
\<close>

type_synonym codepoint = nat
type_synonym pystr = "codepoint list"

definition ascii :: "string \<Rightarrow> pystr" where
  "ascii s = map of_char s"

text \<open>
  \<open>str.strip()\<close> without argument removes leading and trailing white space, which for
  \<open>str\<close> is the set of code points for which \<open>str.isspace\<close> holds.
\<close>

definition py_isspace :: "codepoint \<Rightarrow> bool" where
  "py_isspace c =
     ((0x09 \<le> c \<and> c \<le> 0x0D) \<or> (0x1C \<le> c \<and> c \<le> 0x20) \<or> c = 0x85 \<or> c = 0xA0
      \<or> c = 0x1680 \<or> (0x2000 \<le> c \<and> c \<le> 0x200A) \<or> c = 0x2028 \<or> c = 0x2029
      \<or> c = 0x202F \<or> c = 0x205F \<or> c = 0x3000)"

definition py_strip :: "pystr \<Rightarrow> pystr" where
  "py_strip s = rev (dropWhile py_isspace (rev (dropWhile py_isspace s)))"

text \<open>
  \<open>str.upper()\<close> maps every code point to its upper-case expansion. The ASCII letters
  are modelled; every other code point is left as it is (no code point outside ASCII
  has the single letter \<open>N\<close> as its upper-case form, which is all the script compares
  the result with).
\<close>

definition py_upper_cp :: "codepoint \<Rightarrow> pystr" where
  "py_upper_cp c = (if 0x61 \<le> c \<and> c \<le> 0x7A then [c - 0x20] else [c])"

definition py_upper :: "pystr \<Rightarrow> pystr" where
  "py_upper s = concat (map py_upper_cp s)"

text \<open>\<open>str(n)\<close> for an integer: its decimal digits, with a minus sign when negative.\<close>

fun digits :: "nat \<Rightarrow> pystr" where
  "digits n = (if n < 10 then [0x30 + n] else digits (n div 10) @ [0x30 + n mod 10])"

definition py_str_int :: "int \<Rightarrow> pystr" where
  "py_str_int i = (if i < 0 then 0x2D # digits (nat (- i)) else digits (nat i))"

text \<open>
  A value that is a \<open>str\<close> or \<open>None\<close>: what an f-string makes of it, and its truth
  value (\<open>not x\<close> holds for \<open>None\<close> and for the empty string).
\<close>

definition py_format :: "pystr option \<Rightarrow> pystr" where
  "py_format x = (case x of None \<Rightarrow> ascii ''None'' | Some s \<Rightarrow> s)"

definition py_not :: "pystr option \<Rightarrow> bool" where
  "py_not x = (case x of None \<Rightarrow> True | Some s \<Rightarrow> s = [])"

subsection \<open>The literals of the source\<close>

definition s_warn_no_pyperclip :: pystr where
  "s_warn_no_pyperclip =
     ascii ''['' @ [0x8B66, 0x544A] @ ascii ''] pyperclip ''
       @ [0x6A21, 0x5757, 0x672A, 0x5B89, 0x88C5, 0xFF0C, 0x5C06, 0x65E0, 0x6CD5, 0x81EA, 0x52A8, 0x590D, 0x5236, 0x5230, 0x526A, 0x8D34, 0x677F]"

definition s_login_start :: pystr where
  "s_login_start =
     [0x0A] @ ascii ''['' @ [0x63D0, 0x793A] @ ascii ''] ''
       @ [0x6B63, 0x5728, 0x542F, 0x52A8] @ ascii '' GitHub CLI ''
       @ [0x767B, 0x5F55, 0x6D41, 0x7A0B] @ ascii ''...''"

definition s_pat_title :: pystr where
  "s_pat_title =
     ascii ''GitHub Personal Access Token (PAT) '' @ [0x914D, 0x7F6E]"

definition s_pat_howto :: pystr where
  "s_pat_howto =
     [0x0A, 0x5982, 0x4F55, 0x83B7, 0x53D6] @ ascii '' PAT:''"

definition s_pat_step1 :: pystr where
  "s_pat_step1 =
     ascii ''1. '' @ [0x8BBF, 0x95EE] @ ascii '': https://github.com/settings/tokens''"

definition s_pat_step2 :: pystr where
  "s_pat_step2 =
     ascii ''2. '' @ [0x70B9, 0x51FB] @ ascii '' '' @ [0x27] @ ascii ''Generate new token''
       @ [0x27] @ ascii '' '' @ [0x2192] @ ascii '' '' @ [0x27] @ ascii ''Tokens (classic)''
       @ [0x27]"

definition s_pat_step3 :: pystr where
  "s_pat_step3 =
     ascii ''3. '' @ [0x52FE, 0x9009] @ ascii '' '' @ [0x27] @ ascii ''repo'' @ [0x27]
       @ ascii '' '' @ [0x6743, 0x9650]"

definition s_pat_step4 :: pystr where
  "s_pat_step4 =
     ascii ''4. '' @ [0x751F, 0x6210, 0x5E76, 0x590D, 0x5236] @ ascii '' Token'' @ [0x0A]"

definition s_pat_prompt :: pystr where
  "s_pat_prompt =
     [0x8BF7, 0x8F93, 0x5165, 0x4F60, 0x7684] @ ascii '' GitHub PAT ('' @ [0x6216, 0x6309]
       @ ascii '' Enter '' @ [0x8DF3, 0x8FC7] @ ascii ''): ''"

definition s_err_userinfo :: pystr where
  "s_err_userinfo =
     ascii ''['' @ [0x9519, 0x8BEF] @ ascii ''] ''
       @ [0x83B7, 0x53D6, 0x7528, 0x6237, 0x4FE1, 0x606F, 0x5931, 0x8D25] @ ascii '': ''"

definition s_err_network :: pystr where
  "s_err_network =
     ascii ''['' @ [0x9519, 0x8BEF] @ ascii ''] ''
       @ [0x7F51, 0x7EDC, 0x8BF7, 0x6C42, 0x5931, 0x8D25] @ ascii '': ''"

definition s_cmd_timeout :: pystr where
  "s_cmd_timeout =
     [0x547D, 0x4EE4, 0x6267, 0x884C, 0x8D85, 0x65F6]"

definition s_unknown_error :: pystr where
  "s_unknown_error =
     [0x672A, 0x77E5, 0x9519, 0x8BEF]"

definition s_create_failed :: pystr where
  "s_create_failed =
     [0x521B, 0x5EFA, 0x5931, 0x8D25] @ ascii '' (''"

definition s_network_failed :: pystr where
  "s_network_failed =
     [0x7F51, 0x7EDC, 0x8BF7, 0x6C42, 0x5931, 0x8D25] @ ascii '': ''"

definition s_title :: pystr where
  "s_title =
     ascii ''     GitHub ''
       @ [0x8FDC, 0x7A0B, 0x4ED3, 0x5E93, 0x81EA, 0x52A8, 0x521B, 0x5EFA, 0x5DE5, 0x5177]"

definition s_gh_installed :: pystr where
  "s_gh_installed =
     [0x0A] @ ascii ''['' @ [0x68C0, 0x6D4B] @ ascii ''] '' @ [0x5DF2, 0x5B89, 0x88C5]
       @ ascii '' GitHub CLI''"

definition s_gh_logged_in :: pystr where
  "s_gh_logged_in =
     ascii ''['' @ [0x68C0, 0x6D4B] @ ascii ''] GitHub CLI '' @ [0x5DF2, 0x767B, 0x5F55]"

definition s_gh_not_logged_in :: pystr where
  "s_gh_not_logged_in =
     ascii ''['' @ [0x68C0, 0x6D4B] @ ascii ''] GitHub CLI '' @ [0x672A, 0x767B, 0x5F55]"

definition s_login_prompt :: pystr where
  "s_login_prompt =
     [0x0A, 0x662F, 0x5426, 0x4F7F, 0x7528] @ ascii '' GitHub CLI '' @ [0x767B, 0x5F55]
       @ ascii ''? (Y/N, '' @ [0x9ED8, 0x8BA4] @ ascii '' Y): ''"

definition s_err_login_failed :: pystr where
  "s_err_login_failed =
     ascii ''['' @ [0x9519, 0x8BEF] @ ascii ''] GitHub CLI ''
       @ [0x767B, 0x5F55, 0x5931, 0x8D25]"

definition s_gh_not_found :: pystr where
  "s_gh_not_found =
     [0x0A] @ ascii ''['' @ [0x63D0, 0x793A] @ ascii ''] ''
       @ [0x672A, 0x68C0, 0x6D4B, 0x5230] @ ascii '' GitHub CLI''"

definition s_gh_install_hint :: pystr where
  "s_gh_install_hint =
     [0x53EF, 0x4EE5, 0x5B89, 0x88C5] @ ascii '' GitHub CLI: https://cli.github.com/''"

definition s_err_no_auth :: pystr where
  "s_err_no_auth =
     [0x0A] @ ascii ''['' @ [0x9519, 0x8BEF] @ ascii ''] ''
       @ [0x672A, 0x914D, 0x7F6E, 0x4EFB, 0x4F55, 0x8BA4, 0x8BC1, 0x65B9, 0x5F0F]"

definition s_err_token_invalid :: pystr where
  "s_err_token_invalid =
     ascii ''['' @ [0x9519, 0x8BEF] @ ascii ''] Token '' @ [0x9A8C, 0x8BC1, 0x5931, 0x8D25]"

definition s_ok_verified :: pystr where
  "s_ok_verified =
     ascii ''['' @ [0x6210, 0x529F] @ ascii ''] '' @ [0x5DF2, 0x9A8C, 0x8BC1, 0x7528, 0x6237]
       @ ascii '': ''"

definition s_name_prompt :: pystr where
  "s_name_prompt =
     [0x8BF7, 0x8F93, 0x5165, 0x4ED3, 0x5E93, 0x540D, 0x79F0] @ ascii '': ''"

definition s_err_name_empty :: pystr where
  "s_err_name_empty =
     ascii ''['' @ [0x9519, 0x8BEF] @ ascii ''] ''
       @ [0x4ED3, 0x5E93, 0x540D, 0x79F0, 0x4E0D, 0x80FD, 0x4E3A, 0x7A7A]"

definition s_lbl_name :: pystr where
  "s_lbl_name =
     [0x4ED3, 0x5E93, 0x540D, 0x79F0] @ ascii '': ''"

definition s_lbl_desc :: pystr where
  "s_lbl_desc =
     [0x4ED3, 0x5E93, 0x63CF, 0x8FF0] @ ascii '': ''"

definition s_lbl_visibility :: pystr where
  "s_lbl_visibility =
     [0x53EF, 0x89C1, 0x6027] @ ascii '': ''"

definition s_private :: pystr where
  "s_private =
     [0x79C1, 0x6709]"

definition s_public :: pystr where
  "s_public =
     [0x516C, 0x5F00]"

definition s_creating :: pystr where
  "s_creating =
     [0x0A] @ ascii ''['' @ [0x4FE1, 0x606F] @ ascii ''] ''
       @ [0x6B63, 0x5728, 0x521B, 0x5EFA, 0x4ED3, 0x5E93] @ ascii ''...''"

definition s_err_create :: pystr where
  "s_err_create =
     ascii ''['' @ [0x9519, 0x8BEF] @ ascii ''] ''
       @ [0x4ED3, 0x5E93, 0x521B, 0x5EFA, 0x5931, 0x8D25] @ ascii '': ''"

definition s_ok_created :: pystr where
  "s_ok_created =
     [0x0A] @ ascii ''['' @ [0x6210, 0x529F] @ ascii ''] ''
       @ [0x4ED3, 0x5E93, 0x521B, 0x5EFA, 0x6210, 0x529F] @ ascii ''!''"

definition s_lbl_url :: pystr where
  "s_lbl_url =
     [0x0A, 0x4ED3, 0x5E93, 0x5730, 0x5740] @ ascii '': ''"

definition s_ok_copied :: pystr where
  "s_ok_copied =
     [0x0A] @ ascii ''['' @ [0x6210, 0x529F] @ ascii ''] ''
       @ [0x4ED3, 0x5E93, 0x5730, 0x5740, 0x5DF2, 0x590D, 0x5236, 0x5230, 0x526A, 0x8D34, 0x677F] @ ascii ''!''"

definition s_warn_copy :: pystr where
  "s_warn_copy =
     [0x0A] @ ascii ''['' @ [0x8B66, 0x544A] @ ascii ''] ''
       @ [0x590D, 0x5236, 0x5230, 0x526A, 0x8D34, 0x677F, 0x5931, 0x8D25] @ ascii '': ''"

definition s_copy_manually :: pystr where
  "s_copy_manually =
     [0x8BF7, 0x624B, 0x52A8, 0x590D, 0x5236, 0x4E0A, 0x9762, 0x7684, 0x5730, 0x5740]"

definition s_hint_copy_manually :: pystr where
  "s_hint_copy_manually =
     [0x0A] @ ascii ''['' @ [0x63D0, 0x793A] @ ascii ''] ''
       @ [0x8BF7, 0x624B, 0x52A8, 0x590D, 0x5236, 0x4E0A, 0x9762, 0x7684, 0x5730, 0x5740]"

text \<open>
  \<^item> \<open>s_warn_no_pyperclip\<close>: [warning] module pyperclip is not installed, the address cannot be copied to the clipboard
  \<^item> \<open>s_login_start\<close>: [hint] starting the GitHub CLI login ...
  \<^item> \<open>s_pat_title\<close>: ... configuration
  \<^item> \<open>s_pat_howto\<close>: how to obtain a PAT:
  \<^item> \<open>s_pat_step1\<close>: 1. visit: ...
  \<^item> \<open>s_pat_step2\<close>: 2. click ... 
  \<^item> \<open>s_pat_step3\<close>: 3. tick the 'repo' scope
  \<^item> \<open>s_pat_step4\<close>: 4. generate and copy the token
  \<^item> \<open>s_pat_prompt\<close>: enter your GitHub PAT (or press Enter to skip): 
  \<^item> \<open>s_err_userinfo\<close>: [error] fetching the user failed: 
  \<^item> \<open>s_err_network\<close>: [error] network request failed: 
  \<^item> \<open>s_cmd_timeout\<close>: command timed out
  \<^item> \<open>s_unknown_error\<close>: unknown error
  \<^item> \<open>s_create_failed\<close>: creation failed (
  \<^item> \<open>s_network_failed\<close>: network request failed: 
  \<^item> \<open>s_title\<close>: GitHub remote repository creation tool
  \<^item> \<open>s_gh_installed\<close>: [probe] GitHub CLI is installed
  \<^item> \<open>s_gh_logged_in\<close>: [probe] GitHub CLI is logged in
  \<^item> \<open>s_gh_not_logged_in\<close>: [probe] GitHub CLI is not logged in
  \<^item> \<open>s_login_prompt\<close>: log in with GitHub CLI? (Y/N, default Y): 
  \<^item> \<open>s_err_login_failed\<close>: [error] GitHub CLI login failed
  \<^item> \<open>s_gh_not_found\<close>: [hint] GitHub CLI not found
  \<^item> \<open>s_gh_install_hint\<close>: GitHub CLI can be installed from ...
  \<^item> \<open>s_err_no_auth\<close>: [error] no authentication configured
  \<^item> \<open>s_err_token_invalid\<close>: [error] token validation failed
  \<^item> \<open>s_ok_verified\<close>: [ok] verified user: 
  \<^item> \<open>s_name_prompt\<close>: enter the repository name: 
  \<^item> \<open>s_err_name_empty\<close>: [error] the repository name must not be empty
  \<^item> \<open>s_lbl_name\<close>: repository name: 
  \<^item> \<open>s_lbl_desc\<close>: repository description: 
  \<^item> \<open>s_lbl_visibility\<close>: visibility: 
  \<^item> \<open>s_private\<close>: private
  \<^item> \<open>s_public\<close>: public
  \<^item> \<open>s_creating\<close>: [info] creating the repository ...
  \<^item> \<open>s_err_create\<close>: [error] repository creation failed: 
  \<^item> \<open>s_ok_created\<close>: [ok] repository created!
  \<^item> \<open>s_lbl_url\<close>: repository address: 
  \<^item> \<open>s_ok_copied\<close>: [ok] address copied to the clipboard!
  \<^item> \<open>s_warn_copy\<close>: [warning] copying to the clipboard failed: 
  \<^item> \<open>s_copy_manually\<close>: please copy the address above by hand
  \<^item> \<open>s_hint_copy_manually\<close>: [hint] please copy the address above by hand
\<close>

definition rule_eq :: pystr where
  "rule_eq = replicate 50 0x3D"

definition rule_dash :: pystr where
  "rule_dash = replicate 50 0x2D"

section \<open>The environment and what a run does to it\<close>

text \<open>
  Everything outside the script is the environment: the \<open>gh\<close> subprocesses, the two
  HTTPS calls, the console and the clipboard module. Each is a function from the
  arguments of the call to its result; the script makes each call at most once in a
  run. A run yields its value together with the list of the calls and prints it made,
  in order.
\<close>

datatype proc_result =
    Completed int pystr pystr
  | TimeoutExpired
  | FileNotFoundError

datatype json = JStr pystr | JBool bool

type_synonym headers = "(pystr \<times> pystr) list"
type_synonym json_object = "(pystr \<times> json) list"

text \<open>
  An HTTP call returns a response, with a status code and a body, or raises
  \<open>requests.RequestException\<close> with a message. What \<open>response.json()\<close> does
  depends on the body:
  \<^item> a JSON object: it returns the dictionary of its fields (strings here);
  \<^item> JSON of another kind (an array, a string, a number, \<open>null\<close>): it returns a value
    that has no \<open>get\<close> (\<open>AttributeError\<close>) and cannot be subscripted with a string
    (\<open>TypeError\<close>);
  \<^item> not JSON at all: it raises \<open>requests.exceptions.JSONDecodeError\<close> with a
    message, and that exception is a \<open>RequestException\<close>.

  An interrupt or end of input at a prompt is outside the model, and so is \<open>main\<close>,
  which wraps the run in a handler that prints whatever was raised and waits for Enter.
\<close>

datatype response_body =
    JsonObject "(pystr \<times> pystr) list"
  | JsonOther
  | NotJson pystr

datatype http_result =
    Response int response_body
  | RequestException pystr

record environment =
  subprocess_run :: "pystr list \<Rightarrow> proc_result"
  requests_get :: "pystr \<Rightarrow> headers \<Rightarrow> http_result"
  requests_post :: "pystr \<Rightarrow> headers \<Rightarrow> json_object \<Rightarrow> http_result"
  console_input :: "pystr \<Rightarrow> pystr"
  pyperclip :: "(pystr \<Rightarrow> pystr option) option"

text \<open>
  \<open>pyperclip\<close> is \<open>None\<close> when the import fails; otherwise it is the \<open>copy\<close> function,
  which returns \<open>None\<close> or the message of the exception it raises.
\<close>

datatype event =
    Run "pystr list"
  | Get pystr headers
  | Post pystr headers json_object
  | Prompt pystr
  | Print pystr
  | Copy pystr

datatype py_exception = FileNotFound | Timeout | KeyError pystr | TypeError | AttributeError

type_synonym 'a io = "(py_exception + 'a) \<times> event list"

definition return_io :: "'a \<Rightarrow> 'a io" where
  "return_io x = (Inr x, [])"

definition bind_io :: "'a io \<Rightarrow> ('a \<Rightarrow> 'b io) \<Rightarrow> 'b io" where
  "bind_io m f =
     (case m of
        (Inl e, t) \<Rightarrow> (Inl e, t)
      | (Inr x, t) \<Rightarrow> (case f x of (r, t') \<Rightarrow> (r, t @ t')))"

definition then_io :: "unit io \<Rightarrow> 'b io \<Rightarrow> 'b io" where
  "then_io m k = bind_io m (\<lambda>_. k)"

definition prints :: "pystr list \<Rightarrow> unit io" where
  "prints ls = (Inr (), map Print ls)"

definition input_io :: "environment \<Rightarrow> pystr \<Rightarrow> pystr io" where
  "input_io env prompt = (Inr (console_input env prompt), [Prompt prompt])"

definition value_of :: "'a io \<Rightarrow> py_exception + 'a" where
  "value_of m = fst m"

definition trace_of :: "'a io \<Rightarrow> event list" where
  "trace_of m = snd m"

section \<open>The class \<open>GitHubRepoCreator\<close>\<close>

record session =
  use_gh_cli :: bool
  token :: "pystr option"
  username :: "pystr option"

definition gh_version_cmd :: "pystr list" where
  "gh_version_cmd = [ascii ''gh'', ascii ''--version'']"

definition gh_auth_status_cmd :: "pystr list" where
  "gh_auth_status_cmd = [ascii ''gh'', ascii ''auth'', ascii ''status'']"

definition gh_auth_login_cmd :: "pystr list" where
  "gh_auth_login_cmd = [ascii ''gh'', ascii ''auth'', ascii ''login'']"

definition gh_api_user_cmd :: "pystr list" where
  "gh_api_user_cmd =
     [ascii ''gh'', ascii ''api'', ascii ''user'', ascii ''--jq'', ascii ''.login'']"

definition api_user_url :: pystr where
  "api_user_url = ascii ''https://api.github.com/user''"

definition api_repos_url :: pystr where
  "api_repos_url = ascii ''https://api.github.com/user/repos''"

definition auth_headers :: "pystr option \<Rightarrow> headers" where
  "auth_headers tok =
     [(ascii ''Authorization'', ascii ''token '' @ py_format tok),
      (ascii ''Accept'', ascii ''application/vnd.github.v3+json'')]"

text \<open>\<open>check_gh_cli\<close>: a missing executable and a timeout both mean "not installed".\<close>

definition check_gh_cli :: "environment \<Rightarrow> bool io" where
  "check_gh_cli env =
     (case subprocess_run env gh_version_cmd of
        Completed rc out err \<Rightarrow> (Inr (rc = 0), [Run gh_version_cmd])
      | TimeoutExpired \<Rightarrow> (Inr False, [Run gh_version_cmd])
      | FileNotFoundError \<Rightarrow> (Inr False, [Run gh_version_cmd]))"

text \<open>\<open>check_gh_auth\<close> catches the timeout only.\<close>

definition check_gh_auth :: "environment \<Rightarrow> bool io" where
  "check_gh_auth env =
     (case subprocess_run env gh_auth_status_cmd of
        Completed rc out err \<Rightarrow> (Inr (rc = 0), [Run gh_auth_status_cmd])
      | TimeoutExpired \<Rightarrow> (Inr False, [Run gh_auth_status_cmd])
      | FileNotFoundError \<Rightarrow> (Inl FileNotFound, [Run gh_auth_status_cmd]))"

text \<open>
  \<open>gh_login\<close> runs the login with \<open>check=True\<close>: a non-zero exit status raises
  \<open>CalledProcessError\<close>, which is caught; nothing else is.
\<close>

definition gh_login :: "environment \<Rightarrow> bool io" where
  "gh_login env =
     then_io (prints [s_login_start])
       (case subprocess_run env gh_auth_login_cmd of
          Completed rc out err \<Rightarrow> (Inr (rc = 0), [Run gh_auth_login_cmd])
        | TimeoutExpired \<Rightarrow> (Inl Timeout, [Run gh_auth_login_cmd])
        | FileNotFoundError \<Rightarrow> (Inl FileNotFound, [Run gh_auth_login_cmd]))"

definition get_token_from_input :: "environment \<Rightarrow> pystr option io" where
  "get_token_from_input env =
     then_io (prints [0x0A # rule_eq, s_pat_title, rule_eq, s_pat_howto,
                      s_pat_step1, s_pat_step2, s_pat_step3, s_pat_step4])
       (bind_io (input_io env s_pat_prompt) (\<lambda>line.
          let tok = py_strip line in
          return_io (if tok \<noteq> [] then Some tok else None)))"

definition get_username_from_token :: "environment \<Rightarrow> pystr option \<Rightarrow> pystr option io" where
  "get_username_from_token env tok =
     (let hs = auth_headers tok in
      case requests_get env api_user_url hs of
        Response st body \<Rightarrow>
          if st = 200 then
            (case body of
               JsonObject obj \<Rightarrow>
                 (case map_of obj (ascii ''login'') of
                    Some login \<Rightarrow> (Inr (Some login), [Get api_user_url hs])
                  | None \<Rightarrow> (Inl (KeyError (ascii ''login'')), [Get api_user_url hs]))
             | JsonOther \<Rightarrow> (Inl TypeError, [Get api_user_url hs])
             | NotJson e \<Rightarrow> (Inr None, [Get api_user_url hs, Print (s_err_network @ e)]))
          else (Inr None, [Get api_user_url hs, Print (s_err_userinfo @ py_str_int st)])
      | RequestException e \<Rightarrow>
          (Inr None, [Get api_user_url hs, Print (s_err_network @ e)]))"

definition get_username_from_gh :: "environment \<Rightarrow> pystr option io" where
  "get_username_from_gh env =
     (case subprocess_run env gh_api_user_cmd of
        Completed rc out err \<Rightarrow>
          (Inr (if rc = 0 then Some (py_strip out) else None), [Run gh_api_user_cmd])
      | TimeoutExpired \<Rightarrow> (Inr None, [Run gh_api_user_cmd])
      | FileNotFoundError \<Rightarrow> (Inl FileNotFound, [Run gh_api_user_cmd]))"

definition gh_create_cmd :: "pystr \<Rightarrow> pystr \<Rightarrow> bool \<Rightarrow> pystr list" where
  "gh_create_cmd repo_name description is_private =
     [ascii ''gh'', ascii ''repo'', ascii ''create'', repo_name]
     @ [if is_private then ascii ''--private'' else ascii ''--public'']
     @ (if description \<noteq> [] then [ascii ''--description'', description] else [])"

definition create_repo_with_gh ::
  "environment \<Rightarrow> pystr \<Rightarrow> pystr \<Rightarrow> bool \<Rightarrow> (bool \<times> pystr option) io" where
  "create_repo_with_gh env repo_name description is_private =
     (let cmd = gh_create_cmd repo_name description is_private in
      case subprocess_run env cmd of
        Completed rc out err \<Rightarrow> (Inr (rc = 0, Some err), [Run cmd])
      | TimeoutExpired \<Rightarrow> (Inr (False, Some s_cmd_timeout), [Run cmd])
      | FileNotFoundError \<Rightarrow> (Inl FileNotFound, [Run cmd]))"

definition repo_data :: "pystr \<Rightarrow> pystr \<Rightarrow> bool \<Rightarrow> json_object" where
  "repo_data repo_name description is_private =
     [(ascii ''name'', JStr repo_name),
      (ascii ''private'', JBool is_private),
      (ascii ''auto_init'', JBool False)]
     @ (if description \<noteq> [] then [(ascii ''description'', JStr description)] else [])"

definition create_repo_with_api ::
  "environment \<Rightarrow> pystr option \<Rightarrow> pystr \<Rightarrow> pystr \<Rightarrow> bool \<Rightarrow> (bool \<times> pystr option) io" where
  "create_repo_with_api env tok repo_name description is_private =
     (let hs = auth_headers tok;
          data = repo_data repo_name description is_private in
      case requests_post env api_repos_url hs data of
        Response st body \<Rightarrow>
          if st = 201 then (Inr (True, None), [Post api_repos_url hs data])
          else
            (case body of
               JsonObject obj \<Rightarrow>
                 (let error_msg = (case map_of obj (ascii ''message'') of
                                     Some m \<Rightarrow> m | None \<Rightarrow> s_unknown_error) in
                  (Inr (False,
                        Some (s_create_failed @ py_str_int st @ ascii ''): '' @ error_msg)),
                   [Post api_repos_url hs data]))
             | JsonOther \<Rightarrow> (Inl AttributeError, [Post api_repos_url hs data])
             | NotJson e \<Rightarrow>
                 (Inr (False, Some (s_network_failed @ e)), [Post api_repos_url hs data]))
      | RequestException e \<Rightarrow>
          (Inr (False, Some (s_network_failed @ e)), [Post api_repos_url hs data]))"

text \<open>
  \<open>setup_auth\<close> returns from inside its first \<open>if\<close> on two paths and falls through to
  the token on the others: the first part yields \<open>Some\<close> of the returned value, or
  \<open>None\<close> when control reaches the comment \<open># PAT\<close>.
\<close>

definition setup_auth_gh :: "environment \<Rightarrow> session \<Rightarrow> (bool \<times> session) option io" where
  "setup_auth_gh env s =
     (if use_gh_cli s then
        then_io (prints [s_gh_installed])
          (bind_io (check_gh_auth env) (\<lambda>authed.
             if authed then
               then_io (prints [s_gh_logged_in])
                 (bind_io (get_username_from_gh env) (\<lambda>u.
                    return_io (Some (True, s\<lparr>username := u\<rparr>))))
             else
               then_io (prints [s_gh_not_logged_in])
                 (bind_io (input_io env s_login_prompt) (\<lambda>line.
                    let choice = py_upper (py_strip line) in
                    if choice \<noteq> ascii ''N'' then
                      bind_io (gh_login env) (\<lambda>ok.
                        if ok then
                          bind_io (get_username_from_gh env) (\<lambda>u.
                            return_io (Some (True, s\<lparr>username := u\<rparr>)))
                        else then_io (prints [s_err_login_failed]) (return_io None))
                    else return_io None))))
      else then_io (prints [s_gh_not_found, s_gh_install_hint]) (return_io None))"

definition setup_auth_token :: "environment \<Rightarrow> session \<Rightarrow> (bool \<times> session) io" where
  "setup_auth_token env s =
     bind_io (get_token_from_input env) (\<lambda>tok.
       let s1 = s\<lparr>token := tok\<rparr> in
       if py_not (token s1) then
         then_io (prints [s_err_no_auth]) (return_io (False, s1))
       else
         bind_io (get_username_from_token env (token s1)) (\<lambda>u.
           let s2 = s1\<lparr>username := u\<rparr> in
           if py_not (username s2) then
             then_io (prints [s_err_token_invalid]) (return_io (False, s2))
           else
             then_io (prints [s_ok_verified @ py_format (username s2)])
               (return_io (True, s2))))"

definition setup_auth :: "environment \<Rightarrow> session \<Rightarrow> (bool \<times> session) io" where
  "setup_auth env s =
     then_io (prints [0x0A # rule_eq, s_title, rule_eq])
       (bind_io (setup_auth_gh env s) (\<lambda>returned.
          case returned of
            Some r \<Rightarrow> return_io r
          | None \<Rightarrow> setup_auth_token env s))"

record repo_info =
  name :: pystr
  description :: pystr
  is_private :: bool

definition get_repo_info :: "environment \<Rightarrow> repo_info option io" where
  "get_repo_info env =
     then_io (prints [0x0A # rule_dash])
       (bind_io (input_io env s_name_prompt) (\<lambda>line.
          let repo_name = py_strip line in
          if repo_name = [] then
            then_io (prints [s_err_name_empty]) (return_io None)
          else
            return_io (Some \<lparr>name = repo_name, description = ascii ''1.0'',
                              is_private = False\<rparr>)))"

definition repo_url :: "session \<Rightarrow> repo_info \<Rightarrow> pystr" where
  "repo_url s info =
     ascii ''https://github.com/'' @ py_format (username s) @ ascii ''/'' @ name info
     @ ascii ''.git''"

definition copy_to_clipboard :: "environment \<Rightarrow> pystr \<Rightarrow> unit io" where
  "copy_to_clipboard env url =
     (case pyperclip env of
        Some copy \<Rightarrow>
          (case copy url of
             None \<Rightarrow> (Inr (), [Copy url, Print s_ok_copied])
           | Some e \<Rightarrow> (Inr (), [Copy url, Print (s_warn_copy @ e), Print s_copy_manually]))
      | None \<Rightarrow> prints [s_hint_copy_manually])"

definition create_with_transport ::
  "environment \<Rightarrow> session \<Rightarrow> repo_info \<Rightarrow> (bool \<times> pystr option) io" where
  "create_with_transport env s info =
     (if use_gh_cli s \<and> py_not (token s) then
        create_repo_with_gh env (name info) (description info) (is_private info)
      else
        create_repo_with_api env (token s) (name info) (description info) (is_private info))"

definition create_repository :: "environment \<Rightarrow> session \<Rightarrow> (bool \<times> session) io" where
  "create_repository env s0 =
     bind_io (setup_auth env s0) (\<lambda>(authed, s).
       if \<not> authed then return_io (False, s)
       else
         bind_io (get_repo_info env) (\<lambda>got.
           case got of
             None \<Rightarrow> return_io (False, s)
           | Some info \<Rightarrow>
               then_io (prints [0x0A # rule_dash,
                                s_lbl_name @ name info,
                                s_lbl_desc @ description info,
                                s_lbl_visibility
                                  @ (if is_private info then s_private else s_public),
                                rule_dash,
                                s_creating])
                 (bind_io (create_with_transport env s info) (\<lambda>(success, error).
                    if \<not> success then
                      then_io (prints [s_err_create @ py_format error])
                        (return_io (False, s))
                    else
                      then_io (prints [s_ok_created, s_lbl_url @ repo_url s info])
                        (then_io (copy_to_clipboard env (repo_url s info))
                           (return_io (True, s)))))))"

text \<open>
  A run: the module is loaded (a failed import of \<open>pyperclip\<close> prints a warning), the
  constructor probes for the helper, and \<open>main\<close> calls \<open>create_repository\<close>.
\<close>

definition import_pyperclip :: "environment \<Rightarrow> unit io" where
  "import_pyperclip env =
     (case pyperclip env of Some copy \<Rightarrow> return_io () | None \<Rightarrow> prints [s_warn_no_pyperclip])"

definition init :: "environment \<Rightarrow> session io" where
  "init env =
     bind_io (check_gh_cli env) (\<lambda>b.
       return_io \<lparr>use_gh_cli = b, token = None, username = None\<rparr>)"

definition run :: "environment \<Rightarrow> (bool \<times> session) io" where
  "run env =
     then_io (import_pyperclip env)
       (bind_io (init env) (\<lambda>s. create_repository env s))"

section \<open>What is observed of a run\<close>

text \<open>
  The claims speak of calls a run makes: the creation through the helper
  (\<open>gh repo create\<close>), the creation through the API (a POST to the repositories
  endpoint), any subprocess, any call that leaves the process.
\<close>

definition is_gh_create :: "event \<Rightarrow> bool" where
  "is_gh_create ev =
     (case ev of
        Run argv \<Rightarrow> take 3 argv = [ascii ''gh'', ascii ''repo'', ascii ''create'']
      | _ \<Rightarrow> False)"

definition is_api_create :: "event \<Rightarrow> bool" where
  "is_api_create ev = (case ev of Post url hs data \<Rightarrow> url = api_repos_url | _ \<Rightarrow> False)"

definition is_creation :: "event \<Rightarrow> bool" where
  "is_creation ev = (is_gh_create ev \<or> is_api_create ev)"

definition helper_create_invoked :: "event list \<Rightarrow> bool" where
  "helper_create_invoked t = (filter is_gh_create t \<noteq> [])"

definition api_create_invoked :: "event list \<Rightarrow> bool" where
  "api_create_invoked t = (filter is_api_create t \<noteq> [])"

definition is_run :: "event \<Rightarrow> bool" where
  "is_run ev = (case ev of Run argv \<Rightarrow> True | _ \<Rightarrow> False)"

definition is_remote :: "event \<Rightarrow> bool" where
  "is_remote ev =
     (case ev of Run argv \<Rightarrow> True | Get url hs \<Rightarrow> True | Post url hs data \<Rightarrow> True
      | _ \<Rightarrow> False)"

definition is_print :: "event \<Rightarrow> bool" where
  "is_print ev = (case ev of Print l \<Rightarrow> True | _ \<Rightarrow> False)"

section \<open>Example environments\<close>

text \<open>
  \<open>env_alice\<close>: no helper on the machine; the user enters the token \<open>abc123\<close>, which
  the identity endpoint accepts as \<open>alice\<close>, and the repository name \<open>demo\<close>; the
  creation call answers 201; the clipboard works.
\<close>

definition env_alice :: environment where
  "env_alice =
     \<lparr>subprocess_run = (\<lambda>argv. FileNotFoundError),
      requests_get = (\<lambda>url hs.
         if url = api_user_url \<and> hs = auth_headers (Some (ascii ''abc123''))
         then Response 200 (JsonObject [(ascii ''login'', ascii ''alice'')])
         else Response 401 (JsonObject [(ascii ''message'', ascii ''Bad credentials'')])),
      requests_post = (\<lambda>url hs data. Response 201 (JsonObject [])),
      console_input = (\<lambda>p.
         if p = s_pat_prompt then ascii ''abc123''
         else if p = s_name_prompt then ascii ''demo'' else []),
      pyperclip = Some (\<lambda>text. None)\<rparr>"

text \<open>
  \<open>env_bob\<close>: the helper is installed and logged in as \<open>bob\<close>; the repository name
  entered is \<open>proj\<close>; \<open>gh repo create\<close> succeeds; \<open>pyperclip\<close> is not installed.
\<close>

definition env_bob :: environment where
  "env_bob =
     \<lparr>subprocess_run = (\<lambda>argv.
         if argv = gh_api_user_cmd then Completed 0 (ascii ''bob'' @ [0x0A]) []
         else Completed 0 [] []),
      requests_get = (\<lambda>url hs. RequestException (ascii ''offline'')),
      requests_post = (\<lambda>url hs data. RequestException (ascii ''offline'')),
      console_input = (\<lambda>p. ascii ''proj''),
      pyperclip = None\<rparr>"

text \<open>
  \<open>env_blank_name\<close>: as \<open>env_bob\<close>, but every prompt is answered with white space
  only (a space, a tab and an ideographic space).
\<close>

definition env_blank_name :: environment where
  "env_blank_name = env_bob\<lparr>console_input := (\<lambda>p. [0x20, 0x09, 0x3000])\<rparr>"

text \<open>The sessions and the request these environments lead to.\<close>

definition s0_bob :: session where
  "s0_bob = \<lparr>use_gh_cli = True, token = None, username = None\<rparr>"

definition s_bob :: session where
  "s_bob = \<lparr>use_gh_cli = True, token = None, username = Some (ascii ''bob'')\<rparr>"

definition info_proj :: repo_info where
  "info_proj = \<lparr>name = ascii ''proj'', description = ascii ''1.0'', is_private = False\<rparr>"

text \<open>The six lines \<open>create_repository\<close> prints before it creates the repository.\<close>

definition header_lines :: "repo_info \<Rightarrow> pystr list" where
  "header_lines info =
     [0x0A # rule_dash, s_lbl_name @ name info, s_lbl_desc @ description info,
      s_lbl_visibility @ (if is_private info then s_private else s_public),
      rule_dash, s_creating]"

text \<open>The session and the request of \<open>env_alice\<close>.\<close>

definition s0_alice :: session where
  "s0_alice = \<lparr>use_gh_cli = False, token = None, username = None\<rparr>"

definition s_alice :: session where
  "s_alice = \<lparr>use_gh_cli = False, token = Some (ascii ''abc123''),
                username = Some (ascii ''alice'')\<rparr>"

definition info_demo :: repo_info where
  "info_demo = \<lparr>name = ascii ''demo'', description = ascii ''1.0'', is_private = False\<rparr>"


definition env_alice_no_clipboard :: environment where
  "env_alice_no_clipboard =
     env_alice\<lparr>pyperclip := Some (\<lambda>text. Some (ascii ''no copy mechanism''))\<rparr>"

text \<open>The clone URLs of the two examples.\<close>

definition url_alice_demo :: pystr where
  "url_alice_demo = ascii ''https://github.com/alice/demo.git''"

definition url_bob_proj :: pystr where
  "url_bob_proj = ascii ''https://github.com/bob/proj.git''"

text \<open>The JSON body of the creation call for the repository \<open>demo\<close>.\<close>

definition body_demo :: json_object where
  "body_demo =
     [(ascii ''name'', JStr (ascii ''demo'')),
      (ascii ''private'', JBool False),
      (ascii ''auto_init'', JBool False),
      (ascii ''description'', JStr (ascii ''1.0''))]"

text \<open>
  \<open>env_alice_wrong_token\<close>: as \<open>env_alice\<close>, but the user enters a token the identity
  endpoint answers with 401.
\<close>

definition env_alice_wrong_token :: environment where
  "env_alice_wrong_token = env_alice\<lparr>console_input := (\<lambda>p. ascii ''wrong'')\<rparr>"

text \<open>\<open>env_alice_offline\<close>: as \<open>env_alice\<close>, but the identity call cannot connect.\<close>

definition env_alice_offline :: environment where
  "env_alice_offline =
     env_alice\<lparr>requests_get := (\<lambda>url hs. RequestException (ascii ''connection refused''))\<rparr>"

text \<open>
  \<open>env_decline\<close>: the helper is installed and not logged in; the user answers the
  login prompt with \<open>n\<close> between spaces, then enters the token and the name of
  \<open>env_alice\<close>. \<open>env_accept\<close>: the same machine, every prompt answered with Enter alone.
\<close>

definition env_decline :: environment where
  "env_decline =
     \<lparr>subprocess_run = (\<lambda>argv.
         if argv = gh_version_cmd then Completed 0 [] [] else Completed 1 [] []),
      requests_get = (\<lambda>url hs.
         if url = api_user_url \<and> hs = auth_headers (Some (ascii ''abc123''))
         then Response 200 (JsonObject [(ascii ''login'', ascii ''alice'')])
         else Response 401 (JsonObject [(ascii ''message'', ascii ''Bad credentials'')])),
      requests_post = (\<lambda>url hs data. Response 201 (JsonObject [])),
      console_input = (\<lambda>p.
         if p = s_login_prompt then ascii '' n ''
         else if p = s_pat_prompt then ascii ''abc123'' else ascii ''demo''),
      pyperclip = Some (\<lambda>text. None)\<rparr>"

definition env_accept :: environment where
  "env_accept = env_decline\<lparr>console_input := (\<lambda>p. [])\<rparr>"

text \<open>
  \<open>env_bob_no_login\<close>: as \<open>env_bob\<close>, but the helper's query for the user name,
  \<open>gh api user --jq .login\<close>, exits with status 1.
\<close>

definition env_bob_no_login :: environment where
  "env_bob_no_login =
     env_bob\<lparr>subprocess_run := (\<lambda>argv.
        if argv = gh_api_user_cmd then Completed 1 [] (ascii ''gh: Bad credentials (HTTP 401)'')
        else Completed 0 [] [])\<rparr>"

text \<open>What a run does besides printing: its subprocesses, HTTP calls, prompts and copies.\<close>

definition interactions :: "event list \<Rightarrow> event list" where
  "interactions t = filter (\<lambda>ev. \<not> is_print ev) t"



section \<open>Values and traces of composed actions\<close>

named_theorems cmd_defs
named_theorems obs_defs

declare gh_version_cmd_def [cmd_defs] gh_auth_status_cmd_def [cmd_defs]
  gh_auth_login_cmd_def [cmd_defs] gh_api_user_cmd_def [cmd_defs] gh_create_cmd_def [cmd_defs]

declare is_gh_create_def [obs_defs] is_api_create_def [obs_defs] is_creation_def [obs_defs]
  is_run_def [obs_defs] is_remote_def [obs_defs] is_print_def [obs_defs]


lemma value_of_pair [simp]: "value_of (v, t) = v"
  by (simp add: value_of_def)

lemma trace_of_pair [simp]: "trace_of (v, t) = t"
  by (simp add: trace_of_def)

lemma value_of_return [simp]: "value_of (return_io x) = Inr x"
  by (simp add: return_io_def)

lemma trace_of_return [simp]: "trace_of (return_io x) = []"
  by (simp add: return_io_def)

lemma value_of_prints [simp]: "value_of (prints ls) = Inr ()"
  by (simp add: prints_def)

lemma trace_of_prints [simp]: "trace_of (prints ls) = map Print ls"
  by (simp add: prints_def)

lemma value_of_input [simp]: "value_of (input_io env p) = Inr (console_input env p)"
  by (simp add: input_io_def)

lemma trace_of_input [simp]: "trace_of (input_io env p) = [Prompt p]"
  by (simp add: input_io_def)

lemma value_of_bind [simp]:
  "value_of (bind_io m f) = (case value_of m of Inl e \<Rightarrow> Inl e | Inr x \<Rightarrow> value_of (f x))"
  by (simp add: value_of_def bind_io_def split: prod.splits sum.splits)

lemma trace_of_bind [simp]:
  "trace_of (bind_io m f) =
     trace_of m @ (case value_of m of Inl e \<Rightarrow> [] | Inr x \<Rightarrow> trace_of (f x))"
  by (simp add: value_of_def trace_of_def bind_io_def split: prod.splits sum.splits)

lemma value_of_then [simp]:
  "value_of (then_io m k) = (case value_of m of Inl e \<Rightarrow> Inl e | Inr x \<Rightarrow> value_of k)"
  by (simp add: then_io_def)

lemma trace_of_then [simp]:
  "trace_of (then_io m k) =
     trace_of m @ (case value_of m of Inl e \<Rightarrow> [] | Inr x \<Rightarrow> trace_of k)"
  by (simp add: then_io_def)

lemma filter_sum_case:
  "filter P (case v of Inl e \<Rightarrow> [] | Inr x \<Rightarrow> g x) =
     (case v of Inl e \<Rightarrow> [] | Inr x \<Rightarrow> filter P (g x))"
  by (simp split: sum.splits)

lemma value_of_import_pyperclip [simp]: "value_of (import_pyperclip env) = Inr ()"
  by (simp add: import_pyperclip_def split: option.splits)

lemma value_of_copy_to_clipboard [simp]: "value_of (copy_to_clipboard env url) = Inr ()"
  by (simp add: copy_to_clipboard_def split: option.splits)

lemma value_of_check_gh_cli:
  "value_of (check_gh_cli env) =
     Inr (case subprocess_run env gh_version_cmd of
            Completed rc out err \<Rightarrow> rc = 0
          | TimeoutExpired \<Rightarrow> False
          | FileNotFoundError \<Rightarrow> False)"
  by (simp add: check_gh_cli_def split: proc_result.splits)

lemma trace_of_check_gh_cli [simp]: "trace_of (check_gh_cli env) = [Run gh_version_cmd]"
  by (simp add: check_gh_cli_def split: proc_result.splits)

lemma init_total:
  "\<exists>b. value_of (init env) = Inr \<lparr>use_gh_cli = b, token = None, username = None\<rparr>"
  by (simp add: init_def value_of_check_gh_cli)

lemma trace_of_init [simp]: "trace_of (init env) = [Run gh_version_cmd]"
  by (simp add: init_def value_of_check_gh_cli)

lemma init_token:
  assumes "value_of (init env) = Inr s0"
  shows "token s0 = None" and "username s0 = None"
  using assms init_total [of env] by auto

lemma get_token_from_input_value:
  "value_of (get_token_from_input env) =
     Inr (if py_strip (console_input env s_pat_prompt) \<noteq> []
          then Some (py_strip (console_input env s_pat_prompt)) else None)"
  by (simp add: get_token_from_input_def Let_def)

lemma get_repo_info_value:
  "value_of (get_repo_info env) =
     Inr (if py_strip (console_input env s_name_prompt) = [] then None
          else Some \<lparr>name = py_strip (console_input env s_name_prompt),
                      description = ascii ''1.0'', is_private = False\<rparr>)"
  by (simp add: get_repo_info_def Let_def)

lemma trace_of_create_with_transport:
  "trace_of (create_with_transport env s info) =
     [if use_gh_cli s \<and> py_not (token s)
      then Run (gh_create_cmd (name info) (description info) (is_private info))
      else Post api_repos_url (auth_headers (token s))
             (repo_data (name info) (description info) (is_private info))]"
  by (simp add: create_with_transport_def create_repo_with_gh_def create_repo_with_api_def
      Let_def split: proc_result.splits http_result.splits response_body.splits)

section \<open>The session after \<open>setup_auth\<close>\<close>

lemma setup_auth_gh_session:
  assumes "value_of (setup_auth_gh env s) = Inr (Some (b, s'))"
  shows "b" and "use_gh_cli s" and "use_gh_cli s' = use_gh_cli s" and "token s' = token s"
  using assms
  by (auto simp add: setup_auth_gh_def Let_def split: if_splits sum.splits)

lemma setup_auth_token_session:
  assumes "value_of (setup_auth_token env s) = Inr (b, s')"
  shows "use_gh_cli s' = use_gh_cli s"
    and "py_not (token s') = (token s' = None)"
    and "b \<Longrightarrow> token s' \<noteq> None \<and> \<not> py_not (username s')"
  using assms
  by (auto simp add: setup_auth_token_def Let_def get_token_from_input_value py_not_def
      split: if_splits sum.splits)

lemma setup_auth_cases:
  assumes "value_of (setup_auth env s0) = Inr (b, s)"
  shows "(value_of (setup_auth_gh env s0) = Inr (Some (b, s)))
       \<or> (value_of (setup_auth_gh env s0) = Inr None
            \<and> value_of (setup_auth_token env s0) = Inr (b, s))"
  using assms
  by (auto simp add: setup_auth_def split: sum.splits option.splits)

lemma setup_auth_session:
  assumes "value_of (setup_auth env s0) = Inr (b, s)" and "token s0 = None"
  shows "use_gh_cli s = use_gh_cli s0" and "py_not (token s) = (token s = None)"
  using setup_auth_cases [OF assms(1)] assms(2)
    setup_auth_gh_session(3,4) [of env s0 b s] setup_auth_token_session(1,2) [of env s0 b s]
  by (auto simp add: py_not_def)

text \<open>
  On the token path \<open>setup_auth\<close> checks the user name before it returns \<open>True\<close>: a
  session with a token has a non-empty user name.
\<close>

lemma token_path_username:
  assumes "value_of (setup_auth env s0) = Inr (True, s)" and "token s0 = None"
    and "token s \<noteq> None"
  shows "\<exists>u. username s = Some u \<and> u \<noteq> []"
  using setup_auth_cases [OF assms(1)] assms(2,3)
    setup_auth_gh_session(4) [of env s0 True s] setup_auth_token_session(3) [of env s0 True s]
  by (auto simp add: py_not_def split: option.splits)

text \<open>
  When \<open>setup_auth\<close> returns \<open>True\<close>, exactly one of the two credentials is there:
  either its helper part returned (the helper was logged in, or the login succeeded) and
  there is no token, or control fell through to the token part and there is a token.
\<close>

lemma credential_exactly_one:
  assumes "value_of (setup_auth env s0) = Inr (True, s)" and "token s0 = None"
  shows "(value_of (setup_auth_gh env s0) = Inr (Some (True, s)) \<and> token s = None)
       \<or> (value_of (setup_auth_gh env s0) = Inr None \<and> token s \<noteq> None)"
  using setup_auth_cases [OF assms(1)] assms(2)
    setup_auth_gh_session(4) [of env s0 True s] setup_auth_token_session(3) [of env s0 True s]
  by auto

section \<open>Where a creation call can occur\<close>

lemma is_creation_simps [simp]:
  "\<not> is_creation (Print x)" "\<not> is_creation (Prompt x)" "\<not> is_creation (Copy x)"
  "\<not> is_creation (Get u hs)"
  by (simp_all add: obs_defs)

lemma not_create_version [simp]:
  "\<not> is_creation (Run gh_version_cmd)"
  "\<not> is_gh_create (Run gh_version_cmd)" "\<not> is_api_create (Run gh_version_cmd)"
  by (simp_all add: obs_defs cmd_defs ascii_def)

lemma is_gh_create_cmd [simp]: "is_gh_create (Run (gh_create_cmd n d p))"
  by (simp add: obs_defs cmd_defs)

lemma is_api_create_post [simp]: "is_api_create (Post api_repos_url hs data)"
  by (simp add: obs_defs)

lemma is_create_simps [simp]:
  "\<not> is_gh_create (Post u hs data)" "\<not> is_api_create (Run argv)"
  by (simp_all add: obs_defs)

lemma is_remote_simps [simp]:
  "is_remote (Run argv)" "is_remote (Get u hs)" "is_remote (Post u hs data)"
  "\<not> is_remote (Print l)" "\<not> is_remote (Prompt l)" "\<not> is_remote (Copy l)"
  by (simp_all add: obs_defs)

lemma creation_check_gh_auth [simp]: "filter is_creation (trace_of (check_gh_auth env)) = []"
  by (simp add: check_gh_auth_def obs_defs cmd_defs ascii_def split: proc_result.splits)

lemma creation_gh_login [simp]: "filter is_creation (trace_of (gh_login env)) = []"
  by (simp add: gh_login_def obs_defs cmd_defs ascii_def split: proc_result.splits)

lemma creation_get_username_from_gh [simp]:
  "filter is_creation (trace_of (get_username_from_gh env)) = []"
  by (simp add: get_username_from_gh_def obs_defs cmd_defs ascii_def
      split: proc_result.splits)

lemma creation_get_token_from_input [simp]:
  "filter is_creation (trace_of (get_token_from_input env)) = []"
  by (simp add: get_token_from_input_def Let_def)

lemma creation_get_username_from_token [simp]:
  "filter is_creation (trace_of (get_username_from_token env tok)) = []"
  by (simp add: get_username_from_token_def Let_def split: http_result.splits response_body.splits option.splits)

lemma creation_setup_auth_gh [simp]:
  "filter is_creation (trace_of (setup_auth_gh env s)) = []"
  by (simp add: setup_auth_gh_def Let_def filter_sum_case split: sum.splits)

lemma creation_setup_auth_token [simp]:
  "filter is_creation (trace_of (setup_auth_token env s)) = []"
  by (simp add: setup_auth_token_def Let_def filter_sum_case split: sum.splits)

lemma creation_setup_auth [simp]: "filter is_creation (trace_of (setup_auth env s)) = []"
  by (simp add: setup_auth_def filter_sum_case split: sum.splits option.splits)

lemma creation_get_repo_info [simp]: "filter is_creation (trace_of (get_repo_info env)) = []"
  by (simp add: get_repo_info_def Let_def)

lemma creation_import_pyperclip [simp]:
  "filter is_creation (trace_of (import_pyperclip env)) = []"
  by (simp add: import_pyperclip_def split: option.splits)

lemma creation_copy_to_clipboard [simp]:
  "filter is_creation (trace_of (copy_to_clipboard env url)) = []"
  by (simp add: copy_to_clipboard_def split: option.splits)

lemma remote_copy_to_clipboard [simp]:
  "filter is_remote (trace_of (copy_to_clipboard env url)) = []"
  by (simp add: copy_to_clipboard_def split: option.splits)

lemma not_invoked_iff:
  "(\<not> helper_create_invoked t \<and> \<not> api_create_invoked t) = (filter is_creation t = [])"
  by (auto simp add: helper_create_invoked_def api_create_invoked_def is_creation_def
      filter_empty_conv)

lemma filter_creation_empty:
  assumes "filter is_creation t = []"
  shows "filter is_gh_create t = []" and "filter is_api_create t = []"
  using assms by (auto simp add: filter_empty_conv is_creation_def)

lemma is_creation_transport:
  "ev \<in> set (trace_of (create_with_transport env s info)) \<Longrightarrow> is_creation ev \<and> is_remote ev"
  by (simp add: trace_of_create_with_transport is_creation_def)

section \<open>The shape of a run\<close>

text \<open>
  A run that has a session and a repository name goes on to the creation call and
  ends with what follows it; any other run stops after \<open>setup_auth\<close> or after the
  prompt for the name.
\<close>

lemma run_created:
  assumes "value_of (init env) = Inr s0"
    and "value_of (setup_auth env s0) = Inr (True, s)"
    and "value_of (get_repo_info env) = Inr (Some info)"
  shows "value_of (run env) =
           (case value_of (create_with_transport env s info) of
              Inl e \<Rightarrow> Inl e | Inr (success, error) \<Rightarrow> Inr (success, s))"
    and "trace_of (run env) =
           trace_of (import_pyperclip env) @ trace_of (init env) @ trace_of (setup_auth env s0)
           @ trace_of (get_repo_info env) @ map Print (header_lines info)
           @ trace_of (create_with_transport env s info)
           @ (case value_of (create_with_transport env s info) of
                Inl e \<Rightarrow> []
              | Inr (success, error) \<Rightarrow>
                  if success
                  then Print s_ok_created # Print (s_lbl_url @ repo_url s info)
                       # trace_of (copy_to_clipboard env (repo_url s info))
                  else [Print (s_err_create @ py_format error)])"
  using assms
  by (simp_all add: run_def create_repository_def header_lines_def
      split: sum.splits prod.splits)

lemma run_stops_early:
  assumes "value_of (init env) = Inr s0"
    and "\<forall>s. value_of (setup_auth env s0) = Inr (True, s)
           \<longrightarrow> value_of (get_repo_info env) = Inr None"
  shows "trace_of (run env) =
           trace_of (import_pyperclip env) @ trace_of (init env) @ trace_of (setup_auth env s0)
           @ (case value_of (setup_auth env s0) of
                Inr (True, s) \<Rightarrow> trace_of (get_repo_info env) | _ \<Rightarrow> [])"
    and "\<forall>s. value_of (run env) \<noteq> Inr (True, s)"
  using assms
  by (auto simp add: run_def create_repository_def split: sum.splits prod.splits bool.splits)


lemma run_succeeded:
  assumes "value_of (run env) = Inr (True, s)"
  obtains s0 info err where "value_of (init env) = Inr s0"
    and "value_of (setup_auth env s0) = Inr (True, s)"
    and "value_of (get_repo_info env) = Inr (Some info)"
    and "value_of (create_with_transport env s info) = Inr (True, err)"
proof -
  obtain b where
    s0: "value_of (init env) = Inr \<lparr>use_gh_cli = b, token = None, username = None\<rparr>"
    using init_total by blast
  let ?s0 = "\<lparr>use_gh_cli = b, token = None, username = None\<rparr>"
  show ?thesis
  proof (cases "\<exists>s' info. value_of (setup_auth env ?s0) = Inr (True, s')
                  \<and> value_of (get_repo_info env) = Inr (Some info)")
    case True
    then obtain s' info where a: "value_of (setup_auth env ?s0) = Inr (True, s')"
      and i: "value_of (get_repo_info env) = Inr (Some info)"
      by blast
    from run_created(1) [OF s0 a i] assms
    have "s' = s \<and> (\<exists>err. value_of (create_with_transport env s' info) = Inr (True, err))"
      by (auto split: sum.splits prod.splits)
    with s0 a i show ?thesis
      using that by blast
  next
    case False
    then have "\<forall>s. value_of (setup_auth env ?s0) = Inr (True, s)
                 \<longrightarrow> value_of (get_repo_info env) = Inr None"
      by (auto simp add: get_repo_info_value)
    from run_stops_early(2) [OF s0 this] assms show ?thesis
      by simp
  qed
qed

section \<open>The example environments, evaluated\<close>

lemma init_env_bob: "value_of (init env_bob) = Inr s0_bob"
  by (simp add: init_def check_gh_cli_def env_bob_def cmd_defs ascii_def s0_bob_def)

lemma setup_auth_env_bob: "value_of (setup_auth env_bob s0_bob) = Inr (True, s_bob)"
  by (simp add: setup_auth_def setup_auth_gh_def check_gh_auth_def get_username_from_gh_def
      env_bob_def cmd_defs ascii_def py_strip_def py_isspace_def s0_bob_def s_bob_def)

lemma get_repo_info_env_bob: "value_of (get_repo_info env_bob) = Inr (Some info_proj)"
  by (simp add: get_repo_info_value env_bob_def info_proj_def ascii_def py_strip_def
      py_isspace_def)

lemma init_env_blank_name: "value_of (init env_blank_name) = Inr s0_bob"
  by (simp add: init_def check_gh_cli_def env_blank_name_def env_bob_def cmd_defs ascii_def
      s0_bob_def)

lemma setup_auth_env_blank_name:
  "value_of (setup_auth env_blank_name s0_bob) = Inr (True, s_bob)"
  by (simp add: setup_auth_def setup_auth_gh_def check_gh_auth_def get_username_from_gh_def
      env_blank_name_def env_bob_def cmd_defs ascii_def py_strip_def py_isspace_def
      s0_bob_def s_bob_def)

lemma blank_env_blank_name:
  "list_all py_isspace (console_input env_blank_name s_name_prompt)"
  by (simp add: env_blank_name_def py_isspace_def)

section \<open>The repository name\<close>

lemma py_strip_blank:
  assumes "list_all py_isspace s"
  shows "py_strip s = []"
  using assms by (auto simp add: py_strip_def list_all_iff dest: set_dropWhileD)

lemma get_repo_info_blank:
  "list_all py_isspace (console_input env s_name_prompt) \<Longrightarrow>
     get_repo_info env =
       (Inr None, [Print (0x0A # rule_dash), Prompt s_name_prompt, Print s_err_name_empty])"
  by (simp add: get_repo_info_def py_strip_blank then_io_def bind_io_def prints_def
      input_io_def return_io_def)

section \<open>The token path and the API call\<close>

lemma get_username_from_token_value:
  "value_of (get_username_from_token env tok) =
     (case requests_get env api_user_url (auth_headers tok) of
        Response st body \<Rightarrow>
          if st = 200 then
            (case body of
               JsonObject obj \<Rightarrow>
                 (case map_of obj (ascii ''login'') of
                    Some login \<Rightarrow> Inr (Some login)
                  | None \<Rightarrow> Inl (KeyError (ascii ''login'')))
             | JsonOther \<Rightarrow> Inl TypeError
             | NotJson e \<Rightarrow> Inr None)
          else Inr None
      | RequestException e \<Rightarrow> Inr None)"
  by (simp add: get_username_from_token_def Let_def split: http_result.splits response_body.splits option.splits)

lemma setup_auth_gh_absent:
  "\<not> use_gh_cli s \<Longrightarrow>
     setup_auth_gh env s = (Inr None, [Print s_gh_not_found, Print s_gh_install_hint])"
  by (simp add: setup_auth_gh_def then_io_def bind_io_def prints_def return_io_def)

lemma setup_auth_token_value:
  assumes "py_strip (console_input env s_pat_prompt) = tok" and "tok \<noteq> []"
  shows "value_of (setup_auth_token env s) =
     (case requests_get env api_user_url (auth_headers (Some tok)) of
        Response st body \<Rightarrow>
          if st = 200 then
            (case body of
               JsonObject obj \<Rightarrow>
                 (case map_of obj (ascii ''login'') of
                    Some login \<Rightarrow>
                      Inr (login \<noteq> [], s\<lparr>token := Some tok, username := Some login\<rparr>)
                  | None \<Rightarrow> Inl (KeyError (ascii ''login'')))
             | JsonOther \<Rightarrow> Inl TypeError
             | NotJson e \<Rightarrow> Inr (False, s\<lparr>token := Some tok, username := None\<rparr>))
          else Inr (False, s\<lparr>token := Some tok, username := None\<rparr>)
      | RequestException e \<Rightarrow> Inr (False, s\<lparr>token := Some tok, username := None\<rparr>))"
  using assms
  by (simp add: setup_auth_token_def get_token_from_input_value get_username_from_token_value
      Let_def py_not_def split: http_result.splits response_body.splits option.splits)


section \<open>The example environments with a token, evaluated\<close>

lemma strip_abc123 [simp]: "py_strip (ascii ''abc123'') = ascii ''abc123''"
  by (simp add: py_strip_def py_isspace_def ascii_def)

lemma console_env_alice:
  "console_input env_alice s_pat_prompt = ascii ''abc123''"
  "console_input env_alice s_name_prompt = ascii ''demo''"
  by (simp_all add: env_alice_def s_pat_prompt_def s_name_prompt_def ascii_def)

lemma init_env_alice: "value_of (init env_alice) = Inr s0_alice"
  by (simp add: init_def value_of_check_gh_cli env_alice_def s0_alice_def)

lemma setup_auth_env_alice: "value_of (setup_auth env_alice s0_alice) = Inr (True, s_alice)"
proof -
  have t: "py_strip (console_input env_alice s_pat_prompt) = ascii ''abc123''"
    by (simp add: console_env_alice)
  have n: "ascii ''abc123'' \<noteq> []"
    by (simp add: ascii_def)
  have "value_of (setup_auth_token env_alice s0_alice) = Inr (True, s_alice)"
    using setup_auth_token_value [OF t n, of s0_alice]
    by (simp add: env_alice_def s0_alice_def s_alice_def ascii_def)
  then show ?thesis
    by (simp add: setup_auth_def setup_auth_gh_absent s0_alice_def)
qed

lemma get_repo_info_env_alice: "value_of (get_repo_info env_alice) = Inr (Some info_demo)"
  by (simp add: get_repo_info_value console_env_alice)
    (simp add: info_demo_def ascii_def py_strip_def py_isspace_def)

lemma transport_env_alice:
  "value_of (create_with_transport env_alice s_alice info_demo) = Inr (True, None)"
  by (simp add: create_with_transport_def create_repo_with_api_def s_alice_def env_alice_def)

lemma run_env_alice: "value_of (run env_alice) = Inr (True, s_alice)"
  by (simp add: run_created(1) [OF init_env_alice setup_auth_env_alice get_repo_info_env_alice]
      transport_env_alice)






lemma init_env_alice_no_clipboard: "value_of (init env_alice_no_clipboard) = Inr s0_alice"
  by (simp add: init_def value_of_check_gh_cli env_alice_no_clipboard_def env_alice_def
      s0_alice_def)

lemma console_env_alice_no_clipboard:
  "console_input env_alice_no_clipboard = console_input env_alice"
  "requests_get env_alice_no_clipboard = requests_get env_alice"
  "requests_post env_alice_no_clipboard = requests_post env_alice"
  by (simp_all add: env_alice_no_clipboard_def)

lemma setup_auth_env_alice_no_clipboard:
  "value_of (setup_auth env_alice_no_clipboard s0_alice) = Inr (True, s_alice)"
proof -
  have t: "py_strip (console_input env_alice_no_clipboard s_pat_prompt) = ascii ''abc123''"
    by (simp add: console_env_alice console_env_alice_no_clipboard)
  have n: "ascii ''abc123'' \<noteq> []"
    by (simp add: ascii_def)
  have "value_of (setup_auth_token env_alice_no_clipboard s0_alice) = Inr (True, s_alice)"
    using setup_auth_token_value [OF t n, of s0_alice]
    by (simp add: console_env_alice_no_clipboard env_alice_def s0_alice_def s_alice_def
        ascii_def)
  then show ?thesis
    by (simp add: setup_auth_def setup_auth_gh_absent s0_alice_def)
qed

lemma get_repo_info_env_alice_no_clipboard:
  "value_of (get_repo_info env_alice_no_clipboard) = Inr (Some info_demo)"
  by (simp add: get_repo_info_value console_env_alice_no_clipboard console_env_alice)
    (simp add: info_demo_def ascii_def py_strip_def py_isspace_def)

lemma transport_env_alice_no_clipboard:
  "value_of (create_with_transport env_alice_no_clipboard s_alice info_demo) = Inr (True, None)"
  by (simp add: create_with_transport_def create_repo_with_api_def s_alice_def
      console_env_alice_no_clipboard env_alice_def)

lemma transport_env_bob:
  "value_of (create_with_transport env_bob s_bob info_proj) = Inr (True, Some [])"
  by (simp add: create_with_transport_def create_repo_with_gh_def s_bob_def py_not_def
      env_bob_def info_proj_def cmd_defs ascii_def)

lemma repo_url_alice: "repo_url s_alice info_demo = url_alice_demo"
  by (simp add: repo_url_def s_alice_def info_demo_def py_format_def url_alice_demo_def ascii_def)

lemma repo_url_bob: "repo_url s_bob info_proj = url_bob_proj"
  by (simp add: repo_url_def s_bob_def info_proj_def py_format_def url_bob_proj_def ascii_def)

section \<open>The helper path of \<open>setup_auth\<close>\<close>

lemma py_upper_N: "py_upper s = ascii ''N'' \<longleftrightarrow> s = ascii ''N'' \<or> s = ascii ''n''"
proof (cases s)
  case Nil
  then show ?thesis by (simp add: py_upper_def ascii_def)
next
  case (Cons c cs)
  have len: "length (py_upper cs) = length cs"
    by (induction cs) (simp_all add: py_upper_def py_upper_cp_def)
  show ?thesis
  proof (cases cs)
    case Nil
    with Cons show ?thesis
      by (auto simp add: py_upper_def py_upper_cp_def ascii_def)
  next
    case (Cons d ds)
    with \<open>s = c # cs\<close> have "length (py_upper s) \<ge> 2"
      using len by (simp add: py_upper_def py_upper_cp_def)
    with Cons \<open>s = c # cs\<close> show ?thesis
      by (auto simp add: ascii_def)
  qed
qed

lemma trace_of_gh_login:
  "trace_of (gh_login env) = [Print s_login_start, Run gh_auth_login_cmd]"
  by (simp add: gh_login_def split: proc_result.splits)

lemma trace_of_check_gh_auth: "trace_of (check_gh_auth env) = [Run gh_auth_status_cmd]"
  by (simp add: check_gh_auth_def split: proc_result.splits)

lemma login_cmd_distinct:
  "gh_auth_login_cmd \<noteq> gh_auth_status_cmd" "gh_auth_login_cmd \<noteq> gh_api_user_cmd"
  by (simp_all add: cmd_defs ascii_def)

lemma setup_auth_gh_unauthenticated:
  assumes "use_gh_cli s" and "value_of (check_gh_auth env) = Inr False"
  shows "value_of (setup_auth_gh env s) =
           (if py_upper (py_strip (console_input env s_login_prompt)) \<noteq> ascii ''N'' then
              (case value_of (gh_login env) of
                 Inl e \<Rightarrow> Inl e
               | Inr ok \<Rightarrow>
                   if ok then
                     (case value_of (get_username_from_gh env) of
                        Inl e \<Rightarrow> Inl e
                      | Inr u \<Rightarrow> Inr (Some (True, s\<lparr>username := u\<rparr>)))
                   else Inr None)
            else Inr None)"
    and "trace_of (setup_auth_gh env s) =
           Print s_gh_installed # trace_of (check_gh_auth env)
           @ [Print s_gh_not_logged_in, Prompt s_login_prompt]
           @ (if py_upper (py_strip (console_input env s_login_prompt)) \<noteq> ascii ''N'' then
                trace_of (gh_login env)
                @ (case value_of (gh_login env) of
                     Inl e \<Rightarrow> []
                   | Inr ok \<Rightarrow>
                       if ok then trace_of (get_username_from_gh env)
                       else [Print s_err_login_failed])
              else [])"
  using assms
  by (simp_all add: setup_auth_gh_def Let_def split: sum.splits)

lemma trace_of_setup_auth:
  "trace_of (setup_auth env s) =
     [Print (0x0A # rule_eq), Print s_title, Print rule_eq] @ trace_of (setup_auth_gh env s)
     @ (case value_of (setup_auth_gh env s) of
          Inl e \<Rightarrow> []
        | Inr returned \<Rightarrow>
            (case returned of Some r \<Rightarrow> [] | None \<Rightarrow> trace_of (setup_auth_token env s)))"
  by (simp add: setup_auth_def split: sum.splits option.splits)

lemma value_of_setup_auth:
  "value_of (setup_auth env s) =
     (case value_of (setup_auth_gh env s) of
        Inl e \<Rightarrow> Inl e
      | Inr returned \<Rightarrow>
          (case returned of Some r \<Rightarrow> Inr r | None \<Rightarrow> value_of (setup_auth_token env s)))"
  by (simp add: setup_auth_def split: sum.splits option.splits)

lemma trace_of_get_username_from_token:
  "\<exists>rest. trace_of (get_username_from_token env tok) = Get api_user_url (auth_headers tok) # rest"
  by (simp add: get_username_from_token_def Let_def split: http_result.splits response_body.splits option.splits)

lemma get_in_setup_auth_token:
  assumes "py_strip (console_input env s_pat_prompt) = tok" and "tok \<noteq> []"
  shows "Get api_user_url (auth_headers (Some tok)) \<in> set (trace_of (setup_auth_token env s))"
  using assms trace_of_get_username_from_token [of env "Some tok"]
  by (auto simp add: setup_auth_token_def Let_def get_token_from_input_value py_not_def)

section \<open>Where a subprocess can occur\<close>

lemma is_run_simps [simp]:
  "is_run (Run argv)" "\<not> is_run (Get u hs)" "\<not> is_run (Post u hs data)"
  "\<not> is_run (Print l)" "\<not> is_run (Prompt l)" "\<not> is_run (Copy l)"
  by (simp_all add: obs_defs)

lemma run_get_token_from_input [simp]:
  "filter is_run (trace_of (get_token_from_input env)) = []"
  by (simp add: get_token_from_input_def Let_def)

lemma run_get_username_from_token [simp]:
  "filter is_run (trace_of (get_username_from_token env tok)) = []"
  by (simp add: get_username_from_token_def Let_def split: http_result.splits response_body.splits option.splits)

lemma run_setup_auth_token [simp]:
  "filter is_run (trace_of (setup_auth_token env s)) = []"
  by (simp add: setup_auth_token_def Let_def filter_sum_case split: sum.splits)

lemma no_run_in_setup_auth_token: "Run argv \<notin> set (trace_of (setup_auth_token env s))"
proof -
  have "\<forall>ev \<in> set (trace_of (setup_auth_token env s)). \<not> is_run ev"
    using run_setup_auth_token [of env s] unfolding filter_empty_conv .
  then show ?thesis
    by (auto simp add: is_run_def)
qed

lemma run_import_pyperclip [simp]:
  "filter is_run (trace_of (import_pyperclip env)) = []"
  by (simp add: import_pyperclip_def split: option.splits)

lemma run_get_repo_info [simp]: "filter is_run (trace_of (get_repo_info env)) = []"
  by (simp add: get_repo_info_def Let_def)

lemma run_copy_to_clipboard [simp]:
  "filter is_run (trace_of (copy_to_clipboard env url)) = []"
  by (simp add: copy_to_clipboard_def split: option.splits)

lemma run_map_Print [simp]: "filter is_run (map Print ls) = []"
  by (induction ls) simp_all

lemma run_setup_auth_absent:
  "\<not> use_gh_cli s \<Longrightarrow> filter is_run (trace_of (setup_auth env s)) = []"
  by (simp add: trace_of_setup_auth setup_auth_gh_absent)

lemma interactions_setup_auth_token:
  "\<exists>rest. interactions (trace_of (setup_auth_token env s)) = Prompt s_pat_prompt # rest"
  by (simp add: setup_auth_token_def get_token_from_input_def interactions_def is_print_def)

lemma interactions_setup_auth_absent:
  assumes "\<not> use_gh_cli s"
  shows "\<exists>rest. interactions (trace_of (setup_auth env s)) = Prompt s_pat_prompt # rest"
  using assms interactions_setup_auth_token [of env s]
  by (auto simp add: trace_of_setup_auth setup_auth_gh_absent interactions_def is_print_def)

lemma interactions_import_pyperclip [simp]:
  "interactions (trace_of (import_pyperclip env)) = []"
  by (simp add: import_pyperclip_def interactions_def is_print_def split: option.splits)

lemma run_prefix:
  assumes "value_of (init env) = Inr s0"
  shows "\<exists>rest. trace_of (run env) =
           trace_of (import_pyperclip env) @ Run gh_version_cmd # trace_of (setup_auth env s0)
           @ rest"
  using assms by (simp add: run_def create_repository_def)

lemma run_no_helper:
  assumes "value_of (init env) = Inr s0" and "\<not> use_gh_cli s0"
  shows "filter is_run (trace_of (run env)) = [Run gh_version_cmd]"
proof (cases "\<exists>s info. value_of (setup_auth env s0) = Inr (True, s)
                \<and> value_of (get_repo_info env) = Inr (Some info)")
  case True
  then obtain s info where a: "value_of (setup_auth env s0) = Inr (True, s)"
    and i: "value_of (get_repo_info env) = Inr (Some info)"
    by blast
  have "\<not> use_gh_cli s"
    using setup_auth_session(1) [OF a init_token(1) [OF assms(1)]] assms(2) by simp
  then show ?thesis
    by (simp add: run_created(2) [OF assms(1) a i] run_setup_auth_absent [OF assms(2)]
        trace_of_create_with_transport split: sum.splits prod.splits)
next
  case False
  then have "\<forall>s. value_of (setup_auth env s0) = Inr (True, s)
               \<longrightarrow> value_of (get_repo_info env) = Inr None"
    by (auto simp add: get_repo_info_value)
  from run_stops_early(1) [OF assms(1) this] show ?thesis
    by (simp add: run_setup_auth_absent [OF assms(2)] split: sum.splits prod.splits bool.splits)
qed

lemma is_creation_post [simp]: "is_creation (Post api_repos_url hs data)"
  by (simp add: is_creation_def)

lemma repo_data_demo: "repo_data (ascii ''demo'') (ascii ''1.0'') False = body_demo"
  by (simp add: repo_data_def body_demo_def ascii_def)

section \<open>The remaining example environments, evaluated\<close>

lemma check_gh_cli_env_alice: "value_of (check_gh_cli env_alice) = Inr False"
  by (simp add: value_of_check_gh_cli env_alice_def)

lemma check_gh_auth_env_decline: "value_of (check_gh_auth env_decline) = Inr False"
  by (simp add: check_gh_auth_def env_decline_def cmd_defs ascii_def)

lemma check_gh_auth_env_accept: "value_of (check_gh_auth env_accept) = Inr False"
  by (simp add: check_gh_auth_def env_accept_def env_decline_def cmd_defs ascii_def)

lemma choice_env_decline: "py_strip (console_input env_decline s_login_prompt) = ascii ''n''"
  by (simp add: env_decline_def py_strip_def py_isspace_def ascii_def)

lemma choice_env_accept: "py_strip (console_input env_accept s_login_prompt) = []"
  by (simp add: env_accept_def py_strip_def)

lemma init_env_bob_no_login: "value_of (init env_bob_no_login) = Inr s0_bob"
  by (simp add: init_def check_gh_cli_def env_bob_no_login_def cmd_defs ascii_def s0_bob_def)

lemma setup_auth_env_bob_no_login:
  "value_of (setup_auth env_bob_no_login s0_bob) = Inr (True, s0_bob)"
  by (simp add: setup_auth_def setup_auth_gh_def check_gh_auth_def get_username_from_gh_def
      env_bob_no_login_def cmd_defs ascii_def s0_bob_def)

lemma get_repo_info_env_bob_no_login:
  "value_of (get_repo_info env_bob_no_login) = Inr (Some info_proj)"
  by (simp add: get_repo_info_value env_bob_no_login_def env_bob_def info_proj_def ascii_def
      py_strip_def py_isspace_def)

lemma transport_env_bob_no_login:
  "value_of (create_with_transport env_bob_no_login s0_bob info_proj) = Inr (True, Some [])"
  by (simp add: create_with_transport_def create_repo_with_gh_def s0_bob_def py_not_def
      env_bob_no_login_def info_proj_def cmd_defs ascii_def)

section \<open>The user name on the helper path\<close>

text \<open>
  Claim C1. Every session that reaches the creation step (\<open>setup_auth\<close> has returned
  \<open>True\<close> and a repository name was entered) has exactly one credential and a
  non-empty user name. The first part holds (\<open>credential_exactly_one\<close> above), and
  on the token path \<open>setup_auth\<close> checks the user name (\<open>token_path_username\<close>).
  On the helper path it does not, and there the claim fails: in \<open>env_bob_no_login\<close>
  the helper is logged in but its query for the user name exits with status 1,
  \<open>get_username_from_gh\<close> returns \<open>None\<close>, and \<open>setup_auth\<close> returns \<open>True\<close>
  all the same. The run goes on, creates the repository and prints an address with
  \<open>None\<close> in the place of the user.
\<close>

theorem helper_path_username_unchecked:
  "value_of (init env_bob_no_login) = Inr s0_bob
   \<and> value_of (setup_auth env_bob_no_login s0_bob) = Inr (True, s0_bob)
   \<and> username s0_bob = None
   \<and> value_of (get_repo_info env_bob_no_login) = Inr (Some info_proj)
   \<and> value_of (run env_bob_no_login) = Inr (True, s0_bob)
   \<and> Print (s_lbl_url @ ascii ''https://github.com/None/proj.git'')
       \<in> set (trace_of (run env_bob_no_login))"
proof -
  have "repo_url s0_bob info_proj = ascii ''https://github.com/None/proj.git''"
    by (simp add: repo_url_def s0_bob_def info_proj_def py_format_def ascii_def)
  then have "value_of (run env_bob_no_login) = Inr (True, s0_bob)
     \<and> Print (s_lbl_url @ ascii ''https://github.com/None/proj.git'')
         \<in> set (trace_of (run env_bob_no_login))"
    by (simp add: run_created [OF init_env_bob_no_login setup_auth_env_bob_no_login
          get_repo_info_env_bob_no_login] transport_env_bob_no_login)
  then show ?thesis
    using init_env_bob_no_login setup_auth_env_bob_no_login get_repo_info_env_bob_no_login
    by (simp add: s0_bob_def)
qed

section \<open>The choice of the transport\<close>

text \<open>
  Claim C2, as amended. In every run that reaches the creation step (\<open>setup_auth\<close> has
  returned \<open>True\<close> and a non-empty repository name was entered), \<open>gh repo create\<close> is
  invoked if and only if the helper is available and no token was collected, and the
  POST to the API is made in every other case, also when the helper is available.
\<close>

theorem transport_choice:
  assumes "value_of (init env) = Inr s0"
    and "value_of (setup_auth env s0) = Inr (True, s)"
    and "value_of (get_repo_info env) = Inr (Some info)"
  shows "(helper_create_invoked (trace_of (run env)) \<longleftrightarrow> use_gh_cli s \<and> token s = None)
       \<and> (api_create_invoked (trace_of (run env)) \<longleftrightarrow> \<not> (use_gh_cli s \<and> token s = None))"
proof -
  have tok: "py_not (token s) = (token s = None)"
    using setup_auth_session(2) [OF assms(2)] init_token(1) [OF assms(1)] by simp
  have tail: "filter is_creation
                (case value_of (create_with_transport env s info) of
                   Inl e \<Rightarrow> []
                 | Inr (success, error) \<Rightarrow>
                     if success
                     then Print s_ok_created # Print (s_lbl_url @ repo_url s info)
                          # trace_of (copy_to_clipboard env (repo_url s info))
                     else [Print (s_err_create @ py_format error)]) = []"
    by (simp split: sum.splits prod.splits)
  have "filter is_gh_create (trace_of (run env)) =
          filter is_gh_create (trace_of (create_with_transport env s info))"
    by (simp add: run_created(2) [OF assms] filter_creation_empty(1) tail)
  moreover have "filter is_api_create (trace_of (run env)) =
          filter is_api_create (trace_of (create_with_transport env s info))"
    by (simp add: run_created(2) [OF assms] filter_creation_empty(2) tail)
  ultimately show ?thesis
    by (simp add: helper_create_invoked_def api_create_invoked_def
        trace_of_create_with_transport tok)
qed

theorem transport_choice_witness:
  "value_of (init env_bob) = Inr s0_bob
   \<and> value_of (setup_auth env_bob s0_bob) = Inr (True, s_bob)
   \<and> value_of (get_repo_info env_bob) = Inr (Some info_proj)
   \<and> helper_create_invoked (trace_of (run env_bob))
   \<and> \<not> api_create_invoked (trace_of (run env_bob))"
  using transport_choice [OF init_env_bob setup_auth_env_bob get_repo_info_env_bob]
    init_env_bob setup_auth_env_bob get_repo_info_env_bob
  by (simp add: s_bob_def)

text \<open>
  Without the restriction to runs that reach the creation step the claim fails: in
  \<open>env_blank_name\<close> the helper is available and no token is collected, yet the run
  stops at the empty repository name and invokes neither transport.
\<close>

theorem transport_choice_counterexample:
  "value_of (run env_blank_name) = Inr (False, s_bob)
   \<and> use_gh_cli s_bob \<and> token s_bob = None
   \<and> \<not> helper_create_invoked (trace_of (run env_blank_name))
   \<and> \<not> api_create_invoked (trace_of (run env_blank_name))"
proof -
  have "value_of (run env_blank_name) = Inr (False, s_bob)"
    using init_env_blank_name setup_auth_env_blank_name blank_env_blank_name
    by (simp add: run_def create_repository_def get_repo_info_blank)
  moreover have "filter is_creation (trace_of (run env_blank_name)) = []"
    using init_env_blank_name setup_auth_env_blank_name blank_env_blank_name
    by (simp add: run_def create_repository_def get_repo_info_blank)
  ultimately show ?thesis
    using not_invoked_iff [of "trace_of (run env_blank_name)"] by (simp add: s_bob_def)
qed

section \<open>An empty repository name\<close>

text \<open>
  Claim C3. When the answer to the repository-name prompt is empty or consists of white
  space only, the run makes no creation call, neither \<open>gh repo create\<close> nor the POST to
  the API, it prints the message that the repository name must not be empty, and
  \<open>create_repository\<close> returns \<open>False\<close>. The prompt is reached when \<open>setup_auth\<close> has
  returned \<open>True\<close>.
\<close>

theorem blank_name_aborts:
  assumes "value_of (init env) = Inr s0"
    and "value_of (setup_auth env s0) = Inr (True, s)"
    and "list_all py_isspace (console_input env s_name_prompt)"
  shows "\<not> helper_create_invoked (trace_of (run env))
       \<and> \<not> api_create_invoked (trace_of (run env))
       \<and> Print s_err_name_empty \<in> set (trace_of (run env))
       \<and> value_of (run env) = Inr (False, s)"
proof -
  have "filter is_creation (trace_of (run env)) = []"
    using assms
    by (simp add: run_def create_repository_def get_repo_info_blank split: option.splits)
  moreover have "Print s_err_name_empty \<in> set (trace_of (run env))"
    using assms
    by (simp add: run_def create_repository_def get_repo_info_blank split: option.splits)
  moreover have "value_of (run env) = Inr (False, s)"
    using assms
    by (simp add: run_def create_repository_def get_repo_info_blank split: option.splits)
  ultimately show ?thesis
    using not_invoked_iff by blast
qed

theorem blank_name_aborts_witness:
  "value_of (init env_blank_name) = Inr s0_bob
   \<and> value_of (setup_auth env_blank_name s0_bob) = Inr (True, s_bob)
   \<and> list_all py_isspace (console_input env_blank_name s_name_prompt)
   \<and> \<not> helper_create_invoked (trace_of (run env_blank_name))
   \<and> \<not> api_create_invoked (trace_of (run env_blank_name))
   \<and> Print s_err_name_empty \<in> set (trace_of (run env_blank_name))
   \<and> value_of (run env_blank_name) = Inr (False, s_bob)"
  using blank_name_aborts [OF init_env_blank_name setup_auth_env_blank_name
      blank_env_blank_name]
    init_env_blank_name setup_auth_env_blank_name blank_env_blank_name
  by simp

section \<open>A creation call answered with a body that is not JSON\<close>












section \<open>A creation call the API rejects\<close>




section \<open>The clone URL\<close>

text \<open>
  Claim C5. When \<open>create_repository\<close> returns \<open>True\<close>, the address it prints is
  \<open>https://github.com/\<close>, the user name of the session as the f-string renders it, a
  slash, the repository name as entered (stripped) and \<open>.git\<close>. Nothing checks
  afterwards that the repository exists: the creation call is the last subprocess or
  HTTP call of the run.
\<close>

theorem clone_url_reported:
  assumes "value_of (run env) = Inr (True, s)"
  shows "Print (s_lbl_url @ ascii ''https://github.com/'' @ py_format (username s) @ ascii ''/''
                 @ py_strip (console_input env s_name_prompt) @ ascii ''.git'')
           \<in> set (trace_of (run env))
       \<and> is_creation (last (filter is_remote (trace_of (run env))))"
proof -
  from assms obtain s0 info err where init: "value_of (init env) = Inr s0"
    and auth: "value_of (setup_auth env s0) = Inr (True, s)"
    and info: "value_of (get_repo_info env) = Inr (Some info)"
    and ok: "value_of (create_with_transport env s info) = Inr (True, err)"
    by (rule run_succeeded)
  have nm: "name info = py_strip (console_input env s_name_prompt)"
    using info by (auto simp add: get_repo_info_value split: if_splits)
  have "Print (s_lbl_url @ repo_url s info) \<in> set (trace_of (run env))"
    by (simp add: run_created(2) [OF init auth info] ok)
  then have url: "Print (s_lbl_url @ ascii ''https://github.com/'' @ py_format (username s)
                    @ ascii ''/'' @ py_strip (console_input env s_name_prompt) @ ascii ''.git'')
           \<in> set (trace_of (run env))"
    by (simp add: repo_url_def nm)
  obtain ev where ev: "trace_of (create_with_transport env s info) = [ev]"
    by (simp add: trace_of_create_with_transport)
  then have "is_creation ev \<and> is_remote ev"
    using is_creation_transport [of ev env s info] by simp
  moreover have "\<exists>pre. filter is_remote (trace_of (run env)) = pre @ [ev]"
    using calculation by (simp add: run_created(2) [OF init auth info] ok ev)
  ultimately have "is_creation (last (filter is_remote (trace_of (run env))))"
    by auto
  with url show ?thesis
    by simp
qed

theorem clone_url_reported_witness:
  "value_of (run env_alice) = Inr (True, s_alice)
   \<and> Print (s_lbl_url @ ascii ''https://github.com/alice/demo.git'')
       \<in> set (trace_of (run env_alice))
   \<and> is_creation (last (filter is_remote (trace_of (run env_alice))))"
  using clone_url_reported [OF run_env_alice] run_env_alice
  by (simp add: s_alice_def console_env_alice py_format_def)
    (simp add: ascii_def py_strip_def py_isspace_def)

section \<open>The token\<close>

text \<open>
  Claim C6. When control reaches the token prompt and the answer, stripped, is a
  non-empty token, \<open>setup_auth\<close> calls the identity endpoint with that token. If the
  response has status 200 and its body has a \<open>login\<close> field, the session's user name is exactly
  that field (and \<open>setup_auth\<close> returns whether it is non-empty); if the response has
  another status, or the call raises a request exception, \<open>setup_auth\<close> returns
  \<open>False\<close>.
\<close>

theorem token_validation:
  assumes "value_of (setup_auth_gh env s) = Inr None"
    and "py_strip (console_input env s_pat_prompt) = tok"
    and "tok \<noteq> []"
  shows "Get api_user_url (auth_headers (Some tok)) \<in> set (trace_of (setup_auth env s))
       \<and> (\<forall>body l. requests_get env api_user_url (auth_headers (Some tok))
                    = Response 200 (JsonObject body)
                  \<and> map_of body (ascii ''login'') = Some l
             \<longrightarrow> value_of (setup_auth env s)
                   = Inr (l \<noteq> [], s\<lparr>token := Some tok, username := Some l\<rparr>))
       \<and> (\<forall>st body. requests_get env api_user_url (auth_headers (Some tok)) = Response st body
                   \<and> st \<noteq> 200
             \<longrightarrow> value_of (setup_auth env s)
                   = Inr (False, s\<lparr>token := Some tok, username := None\<rparr>))
       \<and> (\<forall>e. requests_get env api_user_url (auth_headers (Some tok)) = RequestException e
             \<longrightarrow> value_of (setup_auth env s)
                   = Inr (False, s\<lparr>token := Some tok, username := None\<rparr>))"
proof -
  have v: "value_of (setup_auth env s) = value_of (setup_auth_token env s)"
    by (simp add: value_of_setup_auth assms(1))
  have "Get api_user_url (auth_headers (Some tok)) \<in> set (trace_of (setup_auth env s))"
    using get_in_setup_auth_token [OF assms(2,3)]
    by (simp add: trace_of_setup_auth assms(1))
  then show ?thesis
    by (auto simp add: v setup_auth_token_value [OF assms(2,3)])
qed

theorem token_validation_witness:
  "value_of (setup_auth_gh env_alice s0_alice) = Inr None
   \<and> py_strip (console_input env_alice s_pat_prompt) = ascii ''abc123''
   \<and> requests_get env_alice api_user_url (auth_headers (Some (ascii ''abc123'')))
       = Response 200 (JsonObject [(ascii ''login'', ascii ''alice'')])
   \<and> value_of (setup_auth env_alice s0_alice)
       = Inr (True, s0_alice\<lparr>token := Some (ascii ''abc123''),
                              username := Some (ascii ''alice'')\<rparr>)
   \<and> value_of (setup_auth_gh env_alice_wrong_token s0_alice) = Inr None
   \<and> py_strip (console_input env_alice_wrong_token s_pat_prompt) = ascii ''wrong''
   \<and> requests_get env_alice_wrong_token api_user_url (auth_headers (Some (ascii ''wrong'')))
       = Response 401 (JsonObject [(ascii ''message'', ascii ''Bad credentials'')])
   \<and> value_of (setup_auth env_alice_wrong_token s0_alice)
       = Inr (False, s0_alice\<lparr>token := Some (ascii ''wrong''), username := None\<rparr>)
   \<and> value_of (setup_auth_gh env_alice_offline s0_alice) = Inr None
   \<and> py_strip (console_input env_alice_offline s_pat_prompt) = ascii ''abc123''
   \<and> requests_get env_alice_offline api_user_url (auth_headers (Some (ascii ''abc123'')))
       = RequestException (ascii ''connection refused'')
   \<and> value_of (setup_auth env_alice_offline s0_alice)
       = Inr (False, s0_alice\<lparr>token := Some (ascii ''abc123''), username := None\<rparr>)"
proof -
  have g1: "value_of (setup_auth_gh env_alice s0_alice) = Inr None"
    by (simp add: setup_auth_gh_absent s0_alice_def)
  have t1: "py_strip (console_input env_alice s_pat_prompt) = ascii ''abc123''"
    by (simp add: console_env_alice)
  have n1: "ascii ''abc123'' \<noteq> []"
    by (simp add: ascii_def)
  have r1: "requests_get env_alice api_user_url (auth_headers (Some (ascii ''abc123'')))
              = Response 200 (JsonObject [(ascii ''login'', ascii ''alice'')])"
    by (simp add: env_alice_def)
  have g2: "value_of (setup_auth_gh env_alice_wrong_token s0_alice) = Inr None"
    by (simp add: setup_auth_gh_absent s0_alice_def)
  have t2: "py_strip (console_input env_alice_wrong_token s_pat_prompt) = ascii ''wrong''"
    by (simp add: env_alice_wrong_token_def py_strip_def py_isspace_def ascii_def)
  have n2: "ascii ''wrong'' \<noteq> []"
    by (simp add: ascii_def)
  have r2: "requests_get env_alice_wrong_token api_user_url
              (auth_headers (Some (ascii ''wrong'')))
              = Response 401 (JsonObject [(ascii ''message'', ascii ''Bad credentials'')])"
    by (simp add: env_alice_wrong_token_def env_alice_def auth_headers_def py_format_def
        ascii_def)
  have g3: "value_of (setup_auth_gh env_alice_offline s0_alice) = Inr None"
    by (simp add: setup_auth_gh_absent s0_alice_def)
  have t3: "py_strip (console_input env_alice_offline s_pat_prompt) = ascii ''abc123''"
    by (simp add: env_alice_offline_def console_env_alice)
  have r3: "requests_get env_alice_offline api_user_url
              (auth_headers (Some (ascii ''abc123'')))
              = RequestException (ascii ''connection refused'')"
    by (simp add: env_alice_offline_def)
  have "value_of (setup_auth env_alice s0_alice)
       = Inr (True, s0_alice\<lparr>token := Some (ascii ''abc123''),
                              username := Some (ascii ''alice'')\<rparr>)"
    using token_validation [OF g1 t1 n1, THEN conjunct2, THEN conjunct1] r1
    by (simp add: ascii_def)
  moreover have "value_of (setup_auth env_alice_wrong_token s0_alice)
       = Inr (False, s0_alice\<lparr>token := Some (ascii ''wrong''), username := None\<rparr>)"
    using token_validation [OF g2 t2 n2, THEN conjunct2, THEN conjunct2, THEN conjunct1] r2
    by simp
  moreover have "value_of (setup_auth env_alice_offline s0_alice)
       = Inr (False, s0_alice\<lparr>token := Some (ascii ''abc123''), username := None\<rparr>)"
    using token_validation [OF g3 t3 n1, THEN conjunct2, THEN conjunct2, THEN conjunct2] r3
    by simp
  ultimately show ?thesis
    using g1 t1 r1 g2 t2 r2 g3 t3 r3 by simp
qed

section \<open>A machine without the helper\<close>

text \<open>
  Claim C7. When the probe \<open>gh --version\<close> fails (\<open>check_gh_cli\<close> returns \<open>False\<close>),
  that probe is the only subprocess of the whole run: no \<open>gh auth status\<close>, no
  \<open>gh auth login\<close>, no \<open>gh api user\<close>, no \<open>gh repo create\<close>. The first thing the
  run does after the probe, besides printing, is to prompt for the token.
\<close>

theorem helper_absent_no_subcommand:
  assumes "value_of (check_gh_cli env) = Inr False"
  shows "filter is_run (trace_of (run env)) = [Run gh_version_cmd]
       \<and> take 2 (interactions (trace_of (run env))) = [Run gh_version_cmd, Prompt s_pat_prompt]"
proof -
  let ?s0 = "\<lparr>use_gh_cli = False, token = None, username = None\<rparr>"
  have init: "value_of (init env) = Inr ?s0"
    using assms by (simp add: init_def)
  have "filter is_run (trace_of (run env)) = [Run gh_version_cmd]"
    by (rule run_no_helper [OF init]) simp
  moreover obtain r1 where "interactions (trace_of (setup_auth env ?s0)) = Prompt s_pat_prompt # r1"
    using interactions_setup_auth_absent [of ?s0 env] by auto
  moreover obtain r2 where "trace_of (run env) =
           trace_of (import_pyperclip env) @ Run gh_version_cmd # trace_of (setup_auth env ?s0)
           @ r2"
    using run_prefix [OF init] by blast
  ultimately show ?thesis
    using interactions_import_pyperclip [of env]
    by (simp add: interactions_def is_print_def)
qed

theorem helper_absent_no_subcommand_witness:
  "value_of (check_gh_cli env_alice) = Inr False
   \<and> filter is_run (trace_of (run env_alice)) = [Run gh_version_cmd]
   \<and> take 2 (interactions (trace_of (run env_alice)))
       = [Run gh_version_cmd, Prompt s_pat_prompt]"
  using helper_absent_no_subcommand [OF check_gh_cli_env_alice] check_gh_cli_env_alice
  by simp

section \<open>The clipboard\<close>

text \<open>
  Claim C8. When the creation has succeeded, \<open>create_repository\<close> returns \<open>True\<close>
  whatever the clipboard does. When \<open>pyperclip.copy\<close> raises, the run ends with the
  success line, the address, the attempt to copy, the warning with the exception's text
  and the request to copy by hand; when \<open>pyperclip\<close> is not installed, the run starts
  with the warning of the failed import and ends with the success line, the address and
  the hint to copy by hand.
\<close>

theorem clipboard_failure_is_warning:
  assumes "value_of (init env) = Inr s0"
    and "value_of (setup_auth env s0) = Inr (True, s)"
    and "value_of (get_repo_info env) = Inr (Some info)"
    and "value_of (create_with_transport env s info) = Inr (True, err)"
  shows "value_of (run env) = Inr (True, s)
       \<and> (\<forall>copy e. pyperclip env = Some copy \<and> copy (repo_url s info) = Some e \<longrightarrow>
             suffix [Print s_ok_created, Print (s_lbl_url @ repo_url s info),
                     Copy (repo_url s info), Print (s_warn_copy @ e), Print s_copy_manually]
               (trace_of (run env)))
       \<and> (pyperclip env = None \<longrightarrow>
             hd (trace_of (run env)) = Print s_warn_no_pyperclip
             \<and> suffix [Print s_ok_created, Print (s_lbl_url @ repo_url s info),
                       Print s_hint_copy_manually]
                 (trace_of (run env)))"
proof -
  have v: "value_of (run env) = Inr (True, s)"
    by (simp add: run_created(1) [OF assms(1,2,3)] assms(4))
  have t: "\<exists>pre. trace_of (run env) =
             pre @ Print s_ok_created # Print (s_lbl_url @ repo_url s info)
                   # trace_of (copy_to_clipboard env (repo_url s info))"
    by (simp add: run_created(2) [OF assms(1,2,3)] assms(4))
  have f: "\<forall>copy e. pyperclip env = Some copy \<and> copy (repo_url s info) = Some e \<longrightarrow>
             suffix [Print s_ok_created, Print (s_lbl_url @ repo_url s info),
                     Copy (repo_url s info), Print (s_warn_copy @ e), Print s_copy_manually]
               (trace_of (run env))"
    using t by (auto simp add: copy_to_clipboard_def suffix_def)
  have u: "pyperclip env = None \<longrightarrow>
             hd (trace_of (run env)) = Print s_warn_no_pyperclip
             \<and> suffix [Print s_ok_created, Print (s_lbl_url @ repo_url s info),
                       Print s_hint_copy_manually]
                 (trace_of (run env))"
  proof
    assume n: "pyperclip env = None"
    have "hd (trace_of (run env)) = Print s_warn_no_pyperclip"
      by (simp add: run_created(2) [OF assms(1,2,3)] import_pyperclip_def n)
    moreover have "suffix [Print s_ok_created, Print (s_lbl_url @ repo_url s info),
                       Print s_hint_copy_manually] (trace_of (run env))"
      using t by (auto simp add: copy_to_clipboard_def suffix_def n)
    ultimately show "hd (trace_of (run env)) = Print s_warn_no_pyperclip
             \<and> suffix [Print s_ok_created, Print (s_lbl_url @ repo_url s info),
                       Print s_hint_copy_manually]
                 (trace_of (run env))"
      by simp
  qed
  from v f u show ?thesis
    by blast
qed

theorem clipboard_failure_is_warning_witness:
  "value_of (create_with_transport env_alice_no_clipboard s_alice info_demo) = Inr (True, None)
   \<and> value_of (create_with_transport env_bob s_bob info_proj) = Inr (True, Some [])
   \<and> value_of (run env_alice_no_clipboard) = Inr (True, s_alice)
   \<and> suffix [Print s_ok_created, Print (s_lbl_url @ url_alice_demo), Copy url_alice_demo,
             Print (s_warn_copy @ ascii ''no copy mechanism''), Print s_copy_manually]
       (trace_of (run env_alice_no_clipboard))
   \<and> value_of (run env_bob) = Inr (True, s_bob)
   \<and> hd (trace_of (run env_bob)) = Print s_warn_no_pyperclip
   \<and> suffix [Print s_ok_created, Print (s_lbl_url @ url_bob_proj), Print s_hint_copy_manually]
       (trace_of (run env_bob))"
proof -
  have a: "pyperclip env_alice_no_clipboard = Some (\<lambda>text. Some (ascii ''no copy mechanism''))"
    by (simp add: env_alice_no_clipboard_def)
  have b: "pyperclip env_bob = None"
    by (simp add: env_bob_def)
  show ?thesis
    using clipboard_failure_is_warning [OF init_env_alice_no_clipboard
        setup_auth_env_alice_no_clipboard get_repo_info_env_alice_no_clipboard
        transport_env_alice_no_clipboard]
      clipboard_failure_is_warning [OF init_env_bob setup_auth_env_bob get_repo_info_env_bob
        transport_env_bob]
      transport_env_alice_no_clipboard transport_env_bob
    by (simp add: a b repo_url_alice repo_url_bob)
qed

section \<open>The scenario of the token \<open>abc123\<close>\<close>

text \<open>
  Claim C9. The helper is absent, the user enters the token \<open>abc123\<close>, the identity
  endpoint answers 200 with the body \<open>{"login": "alice"}\<close>, and the user enters the
  repository name \<open>demo\<close>. Then the run makes exactly one creation call, the POST to
  the API with the token in its headers and the JSON body \<open>name = demo\<close>,
  \<open>private = false\<close>, \<open>auto_init = false\<close>, \<open>description = 1.0\<close>; and when the
  response is 201 the run succeeds and prints the address
  \<open>https://github.com/alice/demo.git\<close>.
\<close>

theorem scenario_alice_demo:
  assumes "value_of (check_gh_cli env) = Inr False"
    and "console_input env s_pat_prompt = ascii ''abc123''"
    and "requests_get env api_user_url (auth_headers (Some (ascii ''abc123'')))
           = Response 200 (JsonObject [(ascii ''login'', ascii ''alice'')])"
    and "console_input env s_name_prompt = ascii ''demo''"
  shows "filter is_creation (trace_of (run env))
           = [Post api_repos_url (auth_headers (Some (ascii ''abc123'')))
                [(ascii ''name'', JStr (ascii ''demo'')),
                 (ascii ''private'', JBool False),
                 (ascii ''auto_init'', JBool False),
                 (ascii ''description'', JStr (ascii ''1.0''))]]
       \<and> (\<forall>body. requests_post env api_repos_url (auth_headers (Some (ascii ''abc123'')))
                    [(ascii ''name'', JStr (ascii ''demo'')),
                     (ascii ''private'', JBool False),
                     (ascii ''auto_init'', JBool False),
                     (ascii ''description'', JStr (ascii ''1.0''))] = Response 201 body
             \<longrightarrow> value_of (run env) = Inr (True, s_alice)
                 \<and> Print (s_lbl_url @ ascii ''https://github.com/alice/demo.git'')
                     \<in> set (trace_of (run env)))"
proof -
  have init: "value_of (init env) = Inr s0_alice"
    using assms(1) by (simp add: init_def s0_alice_def)
  have t: "py_strip (console_input env s_pat_prompt) = ascii ''abc123''"
    by (simp add: assms(2))
  have n: "ascii ''abc123'' \<noteq> []"
    by (simp add: ascii_def)
  have "value_of (setup_auth_token env s0_alice) = Inr (True, s_alice)"
    unfolding setup_auth_token_value [OF t n, of s0_alice] assms(3)
    by (simp add: s0_alice_def s_alice_def ascii_def)
  then have auth: "value_of (setup_auth env s0_alice) = Inr (True, s_alice)"
    by (simp add: value_of_setup_auth setup_auth_gh_absent s0_alice_def)
  have info: "value_of (get_repo_info env) = Inr (Some info_demo)"
    by (simp add: get_repo_info_value assms(4))
      (simp add: info_demo_def ascii_def py_strip_def py_isspace_def)
  have tr: "trace_of (create_with_transport env s_alice info_demo)
              = [Post api_repos_url (auth_headers (Some (ascii ''abc123''))) body_demo]"
    by (simp add: trace_of_create_with_transport repo_data_demo [symmetric])
      (simp add: s_alice_def info_demo_def)
  have c: "filter is_creation (trace_of (run env))
             = [Post api_repos_url (auth_headers (Some (ascii ''abc123''))) body_demo]"
    by (simp add: run_created(2) [OF init auth info] tr split: sum.splits prod.splits)
  have "\<forall>body. requests_post env api_repos_url (auth_headers (Some (ascii ''abc123'')))
                  body_demo = Response 201 body
             \<longrightarrow> value_of (run env) = Inr (True, s_alice)
                 \<and> Print (s_lbl_url @ url_alice_demo) \<in> set (trace_of (run env))"
  proof (intro allI impI)
    fix body
    assume "requests_post env api_repos_url (auth_headers (Some (ascii ''abc123'')))
              body_demo = Response 201 body"
    then have ok: "value_of (create_with_transport env s_alice info_demo) = Inr (True, None)"
      by (simp add: create_with_transport_def create_repo_with_api_def Let_def
          s_alice_def info_demo_def repo_data_demo)
    show "value_of (run env) = Inr (True, s_alice)
            \<and> Print (s_lbl_url @ url_alice_demo) \<in> set (trace_of (run env))"
      by (simp add: run_created [OF init auth info] ok repo_url_alice)
  qed
  with c show ?thesis
    by (simp add: body_demo_def url_alice_demo_def)
qed

theorem scenario_alice_demo_witness:
  "value_of (check_gh_cli env_alice) = Inr False
   \<and> console_input env_alice s_pat_prompt = ascii ''abc123''
   \<and> requests_get env_alice api_user_url (auth_headers (Some (ascii ''abc123'')))
       = Response 200 (JsonObject [(ascii ''login'', ascii ''alice'')])
   \<and> console_input env_alice s_name_prompt = ascii ''demo''
   \<and> requests_post env_alice api_repos_url (auth_headers (Some (ascii ''abc123''))) body_demo
       = Response 201 (JsonObject [])
   \<and> filter is_creation (trace_of (run env_alice))
       = [Post api_repos_url (auth_headers (Some (ascii ''abc123''))) body_demo]
   \<and> value_of (run env_alice) = Inr (True, s_alice)
   \<and> Print (s_lbl_url @ ascii ''https://github.com/alice/demo.git'')
       \<in> set (trace_of (run env_alice))"
proof -
  have r: "requests_get env_alice api_user_url (auth_headers (Some (ascii ''abc123'')))
             = Response 200 (JsonObject [(ascii ''login'', ascii ''alice'')])"
    by (simp add: env_alice_def)
  have p: "requests_post env_alice api_repos_url (auth_headers (Some (ascii ''abc123'')))
             body_demo = Response 201 (JsonObject [])"
    by (simp add: env_alice_def)
  note w = scenario_alice_demo [OF check_gh_cli_env_alice console_env_alice(1) r
      console_env_alice(2), folded body_demo_def]
  have "value_of (run env_alice) = Inr (True, s_alice)
          \<and> Print (s_lbl_url @ ascii ''https://github.com/alice/demo.git'')
              \<in> set (trace_of (run env_alice))"
    using w [THEN conjunct2] p by blast
  then show ?thesis
    using w [THEN conjunct1] check_gh_cli_env_alice console_env_alice r p by simp
qed

section \<open>The login prompt\<close>

text \<open>
  Claim C10. At the prompt that offers the helper's login (the helper is installed and
  not logged in), the answer is stripped and upper-cased and compared with \<open>N\<close>. The
  result is \<open>N\<close> exactly when the stripped answer is \<open>N\<close> or \<open>n\<close>; \<open>gh auth login\<close>
  is run for every other answer, the empty one included; and after \<open>N\<close> or \<open>n\<close>
  \<open>setup_auth\<close> goes on with the token: nothing lies between the login prompt and
  the token part, whose value it returns.
\<close>

theorem login_prompt_default_yes:
  assumes "use_gh_cli s" and "value_of (check_gh_auth env) = Inr False"
  shows "(py_upper (py_strip (console_input env s_login_prompt)) = ascii ''N''
            \<longleftrightarrow> py_strip (console_input env s_login_prompt) = ascii ''N''
                \<or> py_strip (console_input env s_login_prompt) = ascii ''n'')
       \<and> (Run gh_auth_login_cmd \<in> set (trace_of (setup_auth env s))
            \<longleftrightarrow> py_strip (console_input env s_login_prompt) \<noteq> ascii ''N''
                \<and> py_strip (console_input env s_login_prompt) \<noteq> ascii ''n'')
       \<and> (py_strip (console_input env s_login_prompt) = ascii ''N''
            \<or> py_strip (console_input env s_login_prompt) = ascii ''n''
          \<longrightarrow> value_of (setup_auth env s) = value_of (setup_auth_token env s)
              \<and> trace_of (setup_auth env s) =
                  [Print (0x0A # rule_eq), Print s_title, Print rule_eq,
                   Print s_gh_installed, Run gh_auth_status_cmd,
                   Print s_gh_not_logged_in, Prompt s_login_prompt]
                  @ trace_of (setup_auth_token env s))"
proof -
  let ?c = "py_strip (console_input env s_login_prompt)"
  have up: "py_upper ?c = ascii ''N'' \<longleftrightarrow> ?c = ascii ''N'' \<or> ?c = ascii ''n''"
    by (rule py_upper_N)
  note gh = setup_auth_gh_unauthenticated [OF assms]
  show ?thesis
  proof (cases "py_upper ?c = ascii ''N''")
    case True
    then have v: "value_of (setup_auth_gh env s) = Inr None"
      and t: "trace_of (setup_auth_gh env s) =
                [Print s_gh_installed, Run gh_auth_status_cmd,
                 Print s_gh_not_logged_in, Prompt s_login_prompt]"
      by (simp_all add: gh trace_of_check_gh_auth)
    have "Run gh_auth_login_cmd \<notin> set (trace_of (setup_auth env s))"
      by (simp add: trace_of_setup_auth v t login_cmd_distinct no_run_in_setup_auth_token)
    moreover have "value_of (setup_auth env s) = value_of (setup_auth_token env s)"
      by (simp add: value_of_setup_auth v)
    moreover have "trace_of (setup_auth env s) =
                  [Print (0x0A # rule_eq), Print s_title, Print rule_eq,
                   Print s_gh_installed, Run gh_auth_status_cmd,
                   Print s_gh_not_logged_in, Prompt s_login_prompt]
                  @ trace_of (setup_auth_token env s)"
      by (simp add: trace_of_setup_auth v t)
    ultimately show ?thesis
      using True up by simp
  next
    case False
    then have "Run gh_auth_login_cmd \<in> set (trace_of (setup_auth_gh env s))"
      by (simp add: gh trace_of_gh_login)
    then have "Run gh_auth_login_cmd \<in> set (trace_of (setup_auth env s))"
      by (simp add: trace_of_setup_auth)
    then show ?thesis
      using False up by simp
  qed
qed

theorem login_prompt_default_yes_witness:
  "use_gh_cli s0_bob
   \<and> value_of (check_gh_auth env_decline) = Inr False
   \<and> py_strip (console_input env_decline s_login_prompt) = ascii ''n''
   \<and> Run gh_auth_login_cmd \<notin> set (trace_of (setup_auth env_decline s0_bob))
   \<and> value_of (setup_auth env_decline s0_bob) = value_of (setup_auth_token env_decline s0_bob)
   \<and> value_of (check_gh_auth env_accept) = Inr False
   \<and> py_strip (console_input env_accept s_login_prompt) = []
   \<and> Run gh_auth_login_cmd \<in> set (trace_of (setup_auth env_accept s0_bob))"
proof -
  have u: "use_gh_cli s0_bob"
    by (simp add: s0_bob_def)
  note d = login_prompt_default_yes [OF u check_gh_auth_env_decline, unfolded choice_env_decline]
  note a = login_prompt_default_yes [OF u check_gh_auth_env_accept, unfolded choice_env_accept]
  have "Run gh_auth_login_cmd \<notin> set (trace_of (setup_auth env_decline s0_bob))"
    using d [THEN conjunct2, THEN conjunct1] by simp
  moreover have "value_of (setup_auth env_decline s0_bob)
                   = value_of (setup_auth_token env_decline s0_bob)"
    using d [THEN conjunct2, THEN conjunct2] by simp
  moreover have "Run gh_auth_login_cmd \<in> set (trace_of (setup_auth env_accept s0_bob))"
    using a [THEN conjunct2, THEN conjunct1] by (simp add: ascii_def)
  ultimately show ?thesis
    using u check_gh_auth_env_decline check_gh_auth_env_accept choice_env_decline
      choice_env_accept
    by simp
qed

end
